theory Spec2Isabelle
  imports Main "HOL-Library.Multiset" "HOL-Library.Product_Lexorder"
begin

section \<open>Data model (types.ts)\<close>

datatype RequestStatus = Pending | Completed

datatype ServiceType = Connect | Disconnect | Replace

text \<open>
  A JavaScript \<^verbatim>\<open>Date\<close> object holds a time value: a whole number of milliseconds since
  the epoch, or NaN (an "Invalid Date"). The range limit of ECMAScript time values
  (8.64e15 ms either side of the epoch) is not modelled.
\<close>

datatype jsdate = InvalidDate | DateAt int

text \<open>
  A JavaScript string that the code trims, lower-cases, splits or searches is a list of
  UTF-16 code units, each a natural number below 65536. The strings it only stores,
  compares or concatenates (ids, staff numbers, notification texts, date strings) are kept
  as \<open>string\<close>. \<open>str\<close> reads an ASCII literal as its code units.
\<close>

type_synonym jsstring = "nat list"

definition str :: "string \<Rightarrow> jsstring" where
  "str s = map of_char s"

record ServiceRequest =
  id_req :: string
  staffName :: jsstring
  staffNumber :: string
  aircraftBay :: jsstring
  flightNumber :: jsstring
  requestTime :: jsdate
  completionTime :: "jsdate option"
  status :: RequestStatus
  serviceType :: ServiceType
  aircraftEta :: string
  deliveryStaffName :: "string option"
  deliveryStaffNumber :: "string option"

datatype notif_type = Success | Error | Info

record NotificationMessage =
  id_notif :: string
  message :: string
  type_notif :: notif_type

section \<open>Wire records and the record transcoder (api.ts)\<close>

text \<open>
  The value found in a timestamp field of a wire record. \<^verbatim>\<open>transformRequest\<close> tests
  \<^verbatim>\<open>completion_time\<close> for truthiness and hands both timestamp fields to the
  \<^verbatim>\<open>Date\<close> constructor, so the JavaScript value kinds that JSON can deliver are kept apart.
\<close>

datatype tsval = TsUndefined | TsNull | TsString string | TsNumber int

record wire_request =
  id_wire :: string
  staff_name :: jsstring
  staff_number :: string
  aircraft_bay :: jsstring
  flight_number :: jsstring
  request_time :: tsval
  completion_time :: tsval
  status_wire :: RequestStatus
  service_type :: ServiceType
  aircraft_eta :: string
  delivery_staff_name :: "string option"
  delivery_staff_number :: "string option"

text \<open>A decoded JSON body: \<^verbatim>\<open>null\<close>, or an object with the fields of the contract.\<close>

datatype json_body = JsonNull | JsonObject wire_request

datatype api_error = ApiError string | TypeError

text \<open>JavaScript truthiness of a timestamp field.\<close>

fun truthy :: "tsval \<Rightarrow> bool" where
  "truthy TsUndefined = False"
| "truthy TsNull = False"
| "truthy (TsString s) = (s \<noteq> [])"
| "truthy (TsNumber n) = (n \<noteq> 0)"

text \<open>
  \<^verbatim>\<open>new Date(v)\<close>. A string goes through \<^verbatim>\<open>Date.parse\<close>, which belongs to the
  runtime and is a parameter here (\<open>None\<close> is NaN); \<^verbatim>\<open>undefined\<close> converts to NaN and
  \<^verbatim>\<open>null\<close> to 0.
\<close>

fun new_Date :: "(string \<Rightarrow> int option) \<Rightarrow> tsval \<Rightarrow> jsdate" where
  "new_Date parse TsUndefined = InvalidDate"
| "new_Date parse TsNull = DateAt 0"
| "new_Date parse (TsString s) = (case parse s of None \<Rightarrow> InvalidDate | Some t \<Rightarrow> DateAt t)"
| "new_Date parse (TsNumber n) = DateAt n"

text \<open>
  \<^verbatim>\<open>transformRequest\<close>. Reading a property of \<^verbatim>\<open>null\<close> throws a TypeError; on an
  object no step of the function throws.
\<close>

fun transformRequest :: "(string \<Rightarrow> int option) \<Rightarrow> json_body \<Rightarrow> api_error + ServiceRequest" where
  "transformRequest parse JsonNull = Inl TypeError"
| "transformRequest parse (JsonObject request) = Inr \<lparr>
     id_req = id_wire request,
     staffName = staff_name request,
     staffNumber = staff_number request,
     aircraftBay = aircraft_bay request,
     flightNumber = flight_number request,
     requestTime = new_Date parse (request_time request),
     completionTime =
       (if truthy (completion_time request) then Some (new_Date parse (completion_time request))
        else None),
     status = status_wire request,
     serviceType = service_type request,
     aircraftEta = aircraft_eta request,
     deliveryStaffName = delivery_staff_name request,
     deliveryStaffNumber = delivery_staff_number request \<rparr>"

section \<open>Runtime library: strings\<close>

text \<open>
  The white space that \<^verbatim>\<open>String.prototype.trim\<close> and \<^verbatim>\<open>Number\<close> strip: the
  ECMAScript WhiteSpace and LineTerminator code points, which are tab, line feed, vertical
  tab, form feed, carriage return, space, no-break space, U+1680, U+2000 to U+200A, the
  line and paragraph separators U+2028 and U+2029, U+202F, U+205F, U+3000 and U+FEFF.
\<close>

definition isWhiteSpace :: "nat \<Rightarrow> bool" where
  "isWhiteSpace c =
     (c \<in> {0x9, 0xA, 0xB, 0xC, 0xD, 0x20, 0xA0, 0x1680, 0x2028, 0x2029, 0x202F, 0x205F,
            0x3000, 0xFEFF}
      \<or> (0x2000 \<le> c \<and> c \<le> 0x200A))"

definition trim :: "jsstring \<Rightarrow> jsstring" where
  "trim s = rev (dropWhile isWhiteSpace (rev (dropWhile isWhiteSpace s)))"

fun startsWith :: "jsstring \<Rightarrow> jsstring \<Rightarrow> bool" where
  "startsWith s [] = True"
| "startsWith [] (c # cs) = False"
| "startsWith (a # as) (c # cs) = (a = c \<and> startsWith as cs)"

text \<open>\<^verbatim>\<open>s.includes(t)\<close>: \<open>t\<close> starts at some position of \<open>s\<close>.\<close>

fun js_includes :: "jsstring \<Rightarrow> jsstring \<Rightarrow> bool" where
  "js_includes [] t = (t = [])"
| "js_includes (c # cs) t = (startsWith (c # cs) t \<or> js_includes cs t)"

text \<open>\<^verbatim>\<open>s.split(sep)\<close> for a one-character separator: always at least one piece.\<close>

fun js_split :: "nat \<Rightarrow> jsstring \<Rightarrow> jsstring list" where
  "js_split sep [] = [[]]"
| "js_split sep (c # cs) =
     (if c = sep then [] # js_split sep cs
      else (case js_split sep cs of [] \<Rightarrow> [[c]] | p # ps \<Rightarrow> (c # p) # ps))"

definition isDigit :: "nat \<Rightarrow> bool" where
  "isDigit c = (48 \<le> c \<and> c \<le> 57)"

definition digitsValue :: "jsstring \<Rightarrow> nat" where
  "digitsValue s = foldl (\<lambda>acc c. 10 * acc + (c - 48)) 0 s"

text \<open>
  \<^verbatim>\<open>Number(s)\<close> on the strings made of decimal digits with optional surrounding white
  space; the empty string converts to 0. \<open>None\<close> is NaN. Signs, fractions, exponents,
  other radixes and \<^verbatim>\<open>Infinity\<close> are outside the modelled fragment.
\<close>

definition js_Number :: "jsstring \<Rightarrow> int option" where
  "js_Number s = (let t = trim s in if list_all isDigit t then Some (int (digitsValue t)) else None)"

definition digitChar :: "nat \<Rightarrow> char" where
  "digitChar n = ''0123456789'' ! n"

fun show_nat :: "nat \<Rightarrow> string" where
  "show_nat n = (if n < 10 then [digitChar n] else show_nat (n div 10) @ [digitChar (n mod 10)])"

declare show_nat.simps [simp del]

text \<open>The decimal rendering of an integer, as template literals and \<^verbatim>\<open>String\<close> give it.\<close>

definition show_int :: "int \<Rightarrow> string" where
  "show_int i = (if i < 0 then CHR ''-'' # show_nat (nat (- i)) else show_nat (nat i))"

section \<open>Runtime library: dates\<close>

text \<open>The time arithmetic of ECMAScript.\<close>

definition msPerDay :: int where "msPerDay = 86400000"
definition msPerHour :: int where "msPerHour = 3600000"
definition msPerMinute :: int where "msPerMinute = 60000"
definition msPerSecond :: int where "msPerSecond = 1000"

definition Day :: "int \<Rightarrow> int" where "Day t = t div msPerDay"
definition HourFromTime :: "int \<Rightarrow> int" where "HourFromTime t = (t div msPerHour) mod 24"
definition MinFromTime :: "int \<Rightarrow> int" where "MinFromTime t = (t div msPerMinute) mod 60"
definition SecFromTime :: "int \<Rightarrow> int" where "SecFromTime t = (t div msPerSecond) mod 60"
definition msFromTime :: "int \<Rightarrow> int" where "msFromTime t = t mod msPerSecond"

text \<open>
  The local time zone belongs to the runtime. It is given by the two readings of the
  ECMAScript operation LocalTZA: the offset in force at a UTC time value, and the offset
  the zone's rules assign to a local time value (at a local time that a transition skips
  or repeats, the offset before the transition). A zone without transitions has the same
  constant for both.
\<close>

record time_zone =
  LocalTZA_utc :: "int \<Rightarrow> int"
  LocalTZA_local :: "int \<Rightarrow> int"

definition LocalTime :: "time_zone \<Rightarrow> int \<Rightarrow> int" where
  "LocalTime zn t = t + LocalTZA_utc zn t"

definition UTC :: "time_zone \<Rightarrow> int \<Rightarrow> int" where
  "UTC zn t = t - LocalTZA_local zn t"

definition MakeTime :: "int \<Rightarrow> int \<Rightarrow> int \<Rightarrow> int \<Rightarrow> int" where
  "MakeTime h m s milli = h * msPerHour + m * msPerMinute + s * msPerSecond + milli"

definition MakeDate :: "int \<Rightarrow> int \<Rightarrow> int" where
  "MakeDate day time = day * msPerDay + time"

fun getTime :: "jsdate \<Rightarrow> int option" where
  "getTime InvalidDate = None"
| "getTime (DateAt t) = Some t"

text \<open>
  \<^verbatim>\<open>d.setHours(hour, min, sec, ms)\<close>, returning the date as it is afterwards. An
  argument that is NaN (\<open>None\<close>), or an invalid date, gives an invalid date.
\<close>

fun setHours ::
    "time_zone \<Rightarrow> jsdate \<Rightarrow> int option \<Rightarrow> int option \<Rightarrow> int option \<Rightarrow> int option \<Rightarrow> jsdate" where
  "setHours zn (DateAt t) (Some h) (Some m) (Some s) (Some milli) =
     DateAt (UTC zn (MakeDate (Day (LocalTime zn t)) (MakeTime h m s milli)))"
| "setHours zn d h m s milli = InvalidDate"

text \<open>The day number of a proleptic Gregorian date (month 1..12).\<close>

definition days_from_civil :: "int \<Rightarrow> int \<Rightarrow> int \<Rightarrow> int" where
  "days_from_civil y m d =
     (let y' = (if m \<le> 2 then y - 1 else y);
          era = y' div 400;
          yoe = y' mod 400;
          doy = (153 * (if m > 2 then m - 3 else m + 9) + 2) div 5 + d - 1;
          doe = yoe * 365 + yoe div 4 - yoe div 100 + doy
      in era * 146097 + doe - 719468)"

text \<open>
  The local time value of a civil date and time of day: what \<open>LocalTime\<close> gives for a
  date that reads so on the local clock.
\<close>

definition local_datetime :: "int \<Rightarrow> int \<Rightarrow> int \<Rightarrow> int \<Rightarrow> int \<Rightarrow> int \<Rightarrow> int" where
  "local_datetime y mo d h mi s = MakeDate (days_from_civil y mo d) (MakeTime h mi s 0)"

section \<open>The remote service as seen through api.ts\<close>

text \<open>
  The data handed to \<^verbatim>\<open>createRequest\<close>, the body it posts, and the partial fields of
  an update request.
\<close>

record create_fields =
  new_staffName :: jsstring
  new_staffNumber :: string
  new_aircraftBay :: jsstring
  new_flightNumber :: jsstring
  new_completionTime :: "jsdate option"
  new_serviceType :: ServiceType
  new_aircraftEta :: string
  new_deliveryStaffName :: "string option"
  new_deliveryStaffNumber :: "string option"

record create_body =
  body_staffName :: jsstring
  body_staffNumber :: string
  body_aircraftBay :: jsstring
  body_flightNumber :: jsstring
  body_serviceType :: ServiceType
  body_aircraftEta :: string

record update_fields =
  upd_status :: "RequestStatus option"
  upd_completionTime :: "jsdate option"
  upd_deliveryStaffName :: "string option"
  upd_deliveryStaffNumber :: "string option"

datatype api_call =
    PostRequest create_body
  | PatchRequest string update_fields
  | DeleteRequest string

text \<open>
  What the component runs in: \<open>remote\<close> is the outcome of \<^verbatim>\<open>fetch\<close> followed by
  \<^verbatim>\<open>processResponse\<close> for a call (an error for a rejected fetch or a non-OK response,
  the decoded body otherwise). \<open>Date_parse\<close>, the time zone \<open>tzone\<close>,
  \<^verbatim>\<open>String.prototype.toLowerCase\<close> and \<^verbatim>\<open>toLocaleDateString('en-CA')\<close> belong to the
  runtime and are taken as they are. \<open>now\<close> is the clock read by \<^verbatim>\<open>new Date()\<close> and
  \<open>notif_now\<close> the clock read by \<^verbatim>\<open>Date.now()\<close> when the handler's notification is built.
\<close>

record env =
  remote :: "api_call \<Rightarrow> api_error + json_body"
  Date_parse :: "string \<Rightarrow> int option"
  tzone :: time_zone
  toLowerCase :: "jsstring \<Rightarrow> jsstring"
  toLocaleDateString_enCA :: "jsdate \<Rightarrow> string"
  now :: int
  notif_now :: int

text \<open>The JSON body that \<^verbatim>\<open>createRequest\<close> posts: six fields picked from the request data.\<close>

definition createRequest_body :: "create_fields \<Rightarrow> create_body" where
  "createRequest_body requestData =
     \<lparr>body_staffName = new_staffName requestData,
      body_staffNumber = new_staffNumber requestData,
      body_aircraftBay = new_aircraftBay requestData,
      body_flightNumber = new_flightNumber requestData,
      body_serviceType = new_serviceType requestData,
      body_aircraftEta = new_aircraftEta requestData\<rparr>"

definition createRequest :: "env \<Rightarrow> create_fields \<Rightarrow> api_error + ServiceRequest" where
  "createRequest e requestData =
     (case remote e (PostRequest (createRequest_body requestData)) of
        Inl err \<Rightarrow> Inl err
      | Inr newRequest \<Rightarrow> transformRequest (Date_parse e) newRequest)"

definition updateRequest :: "env \<Rightarrow> string \<Rightarrow> update_fields \<Rightarrow> api_error + ServiceRequest" where
  "updateRequest e i updates =
     (case remote e (PatchRequest i updates) of
        Inl err \<Rightarrow> Inl err
      | Inr updatedRequest \<Rightarrow> transformRequest (Date_parse e) updatedRequest)"

definition deleteRequest :: "env \<Rightarrow> string \<Rightarrow> api_error + unit" where
  "deleteRequest e i =
     (case remote e (DeleteRequest i) of Inl err \<Rightarrow> Inl err | Inr body \<Rightarrow> Inr ())"

section \<open>The request store and the mutation workflows (MainApplication)\<close>

text \<open>A filter choice: the literal \<^verbatim>\<open>'ALL'\<close> or one value of the enum.\<close>

datatype 'a or_all = F_ALL | F_Only 'a

record app_state =
  requests :: "ServiceRequest list"
  statusFilter :: "RequestStatus or_all"
  serviceTypeFilter :: "ServiceType or_all"
  dateFilter :: string
  searchTerm :: jsstring
  confirmingComplete :: "string option"
  confirmingDelete :: "string option"
  completingDelivery :: "string option"
  notifications :: "NotificationMessage list"

text \<open>\<^verbatim>\<open>addNotification\<close>; \<open>t\<close> is what \<^verbatim>\<open>Date.now()\<close> returns.\<close>

definition addNotification :: "int \<Rightarrow> string \<Rightarrow> notif_type \<Rightarrow> app_state \<Rightarrow> app_state" where
  "addNotification t msg ty st =
     st\<lparr>notifications := notifications st @
          [\<lparr>id_notif = ''notif-'' @ show_int t, message = msg, type_notif = ty\<rparr>]\<rparr>"

definition removeNotification :: "string \<Rightarrow> app_state \<Rightarrow> app_state" where
  "removeNotification i st = st\<lparr>notifications := filter (\<lambda>n. id_notif n \<noteq> i) (notifications st)\<rparr>"

definition addRequest :: "env \<Rightarrow> create_fields \<Rightarrow> app_state \<Rightarrow> app_state" where
  "addRequest e request st =
     (case createRequest e request of
        Inr newRequest \<Rightarrow>
          addNotification (notif_now e) ''Service request created successfully.'' Success
            (st\<lparr>requests := newRequest # requests st\<rparr>)
      | Inl err \<Rightarrow> addNotification (notif_now e) ''Failed to create service request.'' Error st)"

definition handleInitiateComplete :: "string \<Rightarrow> app_state \<Rightarrow> app_state" where
  "handleInitiateComplete i st = st\<lparr>confirmingComplete := Some i\<rparr>"

text \<open>The update that \<^verbatim>\<open>handleConfirmComplete\<close> builds.\<close>

definition complete_updates :: "env \<Rightarrow> update_fields" where
  "complete_updates e =
     \<lparr>upd_status = Some Completed, upd_completionTime = Some (DateAt (now e)),
      upd_deliveryStaffName = None, upd_deliveryStaffNumber = None\<rparr>"

text \<open>A pending id that is \<^verbatim>\<open>null\<close> or the empty string is falsy: the handler returns.\<close>

definition handleConfirmComplete :: "env \<Rightarrow> app_state \<Rightarrow> app_state" where
  "handleConfirmComplete e st =
     (case confirmingComplete st of
        None \<Rightarrow> st
      | Some cid \<Rightarrow>
          if cid = [] then st
          else (case updateRequest e cid (complete_updates e) of
                  Inr updatedRequest \<Rightarrow>
                    addNotification (notif_now e) ''Request marked as complete.'' Info
                      (st\<lparr>requests := map (\<lambda>req. if id_req req = cid then updatedRequest else req)
                                         (requests st),
                          confirmingComplete := None\<rparr>)
                | Inl err \<Rightarrow>
                    addNotification (notif_now e) ''Failed to mark request as complete.'' Error st))"

definition handleCancelComplete :: "app_state \<Rightarrow> app_state" where
  "handleCancelComplete st = st\<lparr>confirmingComplete := None\<rparr>"

text \<open>
  The completion date of the delivery workflow: the pieces of the time string go through
  \<^verbatim>\<open>Number\<close>, a missing second piece is \<^verbatim>\<open>undefined\<close> and converts to NaN, and
  \<^verbatim>\<open>setHours(hours, minutes, 0, 0)\<close> is applied to a copy of the request time.
\<close>

definition delivery_completionDate :: "time_zone \<Rightarrow> ServiceRequest \<Rightarrow> jsstring \<Rightarrow> jsdate" where
  "delivery_completionDate zn reqToUpdate completionTimeStr =
     (let parts = map js_Number (js_split (of_char CHR '':'') completionTimeStr);
          hours = (case parts of [] \<Rightarrow> None | h # rest \<Rightarrow> h);
          minutes = (case parts of h # m # rest \<Rightarrow> m | _ \<Rightarrow> None)
      in setHours zn (requestTime reqToUpdate) hours minutes (Some 0) (Some 0))"

definition delivery_updates ::
    "env \<Rightarrow> ServiceRequest \<Rightarrow> string \<Rightarrow> string \<Rightarrow> jsstring \<Rightarrow> update_fields" where
  "delivery_updates e reqToUpdate name number completionTimeStr =
     \<lparr>upd_status = Some Completed,
      upd_completionTime = Some (delivery_completionDate (tzone e) reqToUpdate completionTimeStr),
      upd_deliveryStaffName = Some name, upd_deliveryStaffNumber = Some number\<rparr>"

definition handleConfirmCompleteDelivery ::
    "env \<Rightarrow> string \<Rightarrow> string \<Rightarrow> jsstring \<Rightarrow> app_state \<Rightarrow> app_state" where
  "handleConfirmCompleteDelivery e name number completionTimeStr st =
     (case completingDelivery st of
        None \<Rightarrow> st
      | Some cid \<Rightarrow>
          if cid = [] then st
          else (case find (\<lambda>r. id_req r = cid) (requests st) of
                  None \<Rightarrow> addNotification (notif_now e) ''Failed to complete task.'' Error st
                | Some reqToUpdate \<Rightarrow>
                    (case updateRequest e cid
                            (delivery_updates e reqToUpdate name number completionTimeStr) of
                       Inr updatedRequest \<Rightarrow>
                         addNotification (notif_now e) ''Task completed successfully.'' Success
                           (st\<lparr>requests :=
                                 map (\<lambda>req. if id_req req = cid then updatedRequest else req)
                                   (requests st),
                               completingDelivery := None\<rparr>)
                     | Inl err \<Rightarrow>
                         addNotification (notif_now e) ''Failed to complete task.'' Error st)))"

definition handleInitiateDelete :: "string \<Rightarrow> app_state \<Rightarrow> app_state" where
  "handleInitiateDelete i st = st\<lparr>confirmingDelete := Some i\<rparr>"

definition handleConfirmDelete :: "env \<Rightarrow> app_state \<Rightarrow> app_state" where
  "handleConfirmDelete e st =
     (case confirmingDelete st of
        None \<Rightarrow> st
      | Some cid \<Rightarrow>
          if cid = [] then st
          else (case deleteRequest e cid of
                  Inr ok \<Rightarrow>
                    addNotification (notif_now e) ''Request has been deleted.'' Info
                      (st\<lparr>requests := filter (\<lambda>req. id_req req \<noteq> cid) (requests st),
                          confirmingDelete := None\<rparr>)
                | Inl err \<Rightarrow> addNotification (notif_now e) ''Failed to delete request.'' Error st))"

definition handleCancelDelete :: "app_state \<Rightarrow> app_state" where
  "handleCancelDelete st = st\<lparr>confirmingDelete := None\<rparr>"

section \<open>The view projector (MainApplication)\<close>

text \<open>Subtraction of JavaScript numbers, \<open>None\<close> being NaN.\<close>

fun js_minus :: "int option \<Rightarrow> int option \<Rightarrow> int option" where
  "js_minus (Some a) (Some b) = Some (a - b)"
| "js_minus a b = None"

text \<open>The comparator handed to \<^verbatim>\<open>sort\<close> in \<^verbatim>\<open>sortedRequests\<close>.\<close>

definition compareRequests :: "ServiceRequest \<Rightarrow> ServiceRequest \<Rightarrow> int option" where
  "compareRequests a b =
     (if status a = Pending \<and> status b = Completed then Some (- 1)
      else if status a = Completed \<and> status b = Pending then Some 1
      else js_minus (getTime (requestTime b)) (getTime (requestTime a)))"

text \<open>
  \<^verbatim>\<open>Array.prototype.sort\<close> with a comparator. The sort is stable and reads a NaN from the
  comparator as 0; for a consistent comparator its result is the stably sorted array, which
  insertion from the right computes. For an inconsistent comparator ECMAScript leaves the
  order to the implementation, and this function is then one admissible outcome.
\<close>

definition SortCompare :: "('a \<Rightarrow> 'a \<Rightarrow> int option) \<Rightarrow> 'a \<Rightarrow> 'a \<Rightarrow> int" where
  "SortCompare comparefn x y = (case comparefn x y of None \<Rightarrow> 0 | Some v \<Rightarrow> v)"

fun sort_insert :: "('a \<Rightarrow> 'a \<Rightarrow> int option) \<Rightarrow> 'a \<Rightarrow> 'a list \<Rightarrow> 'a list" where
  "sort_insert comparefn x [] = [x]"
| "sort_insert comparefn x (y # ys) =
     (if SortCompare comparefn x y \<le> 0 then x # y # ys else y # sort_insert comparefn x ys)"

definition array_sort :: "('a \<Rightarrow> 'a \<Rightarrow> int option) \<Rightarrow> 'a list \<Rightarrow> 'a list" where
  "array_sort comparefn xs = foldr (sort_insert comparefn) xs []"

definition sortedRequests :: "app_state \<Rightarrow> ServiceRequest list" where
  "sortedRequests st = array_sort compareRequests (requests st)"

definition pendingCount :: "app_state \<Rightarrow> nat" where
  "pendingCount st = length (filter (\<lambda>req. status req = Pending) (requests st))"

definition filteredRequests :: "env \<Rightarrow> app_state \<Rightarrow> ServiceRequest list" where
  "filteredRequests e st =
     filter (\<lambda>req.
         if trim (searchTerm st) = [] then True
         else (let lowercasedSearchTerm = toLowerCase e (searchTerm st)
               in js_includes (toLowerCase e (flightNumber req)) lowercasedSearchTerm \<or>
                  js_includes (toLowerCase e (aircraftBay req)) lowercasedSearchTerm \<or>
                  js_includes (toLowerCase e (staffName req)) lowercasedSearchTerm))
       (filter (\<lambda>req.
            if dateFilter st = [] then True
            else toLocaleDateString_enCA e (requestTime req) = dateFilter st)
          (filter (\<lambda>req. serviceTypeFilter st = F_ALL \<or> F_Only (serviceType req) = serviceTypeFilter st)
             (filter (\<lambda>req. statusFilter st = F_ALL \<or> F_Only (status req) = statusFilter st)
                (sortedRequests st))))"

definition filteredDeliveryRequests :: "app_state \<Rightarrow> ServiceRequest list" where
  "filteredDeliveryRequests st =
     filter (\<lambda>req. statusFilter st = F_ALL \<or> F_Only (status req) = statusFilter st) (sortedRequests st)"



section \<open>Example data\<close>

text \<open>A stand-in for \<^verbatim>\<open>Date.parse\<close> that knows two ISO strings and rejects the rest.\<close>

definition example_parse :: "string \<Rightarrow> int option" where
  "example_parse s =
     (if s = ''2024-03-05T08:00:00.000Z'' then Some 1709625600000
      else if s = ''2024-03-05T14:30:00.000Z'' then Some 1709649000000
      else None)"

text \<open>
  Stand-ins for the other runtime functions, for the examples only: lower-casing as the
  runtime does it on ASCII text, the date string of the runtime in the UTC zone for
  dates on 5 and 6 March 2024 (the answer for other dates plays no part), the UTC zone, and
  US Eastern time around the start of daylight saving on 10 March 2024 (UTC-5 before 07:00
  UTC, UTC-4 from then on; the local hour from 02:00 to 03:00 does not exist that day and
  is read with the offset before the transition).
\<close>

definition ascii_toLowerCase :: "jsstring \<Rightarrow> jsstring" where
  "ascii_toLowerCase s = map (\<lambda>c. if 65 \<le> c \<and> c \<le> 90 then c + 32 else c) s"

definition example_dateString :: "jsdate \<Rightarrow> string" where
  "example_dateString d =
     (case d of
        InvalidDate \<Rightarrow> ''Invalid Date''
      | DateAt t \<Rightarrow>
          if 1709596800000 \<le> t \<and> t < 1709683200000 then ''2024-03-05''
          else if 1709683200000 \<le> t \<and> t < 1709769600000 then ''2024-03-06''
          else ''another day'')"

definition utc_zone :: time_zone where
  "utc_zone = \<lparr>LocalTZA_utc = (\<lambda>t. 0), LocalTZA_local = (\<lambda>t. 0)\<rparr>"

definition eastern_zone_2024 :: time_zone where
  "eastern_zone_2024 = \<lparr>
     LocalTZA_utc = (\<lambda>t. if t < 1710054000000 then - 18000000 else - 14400000),
     LocalTZA_local = (\<lambda>t. if t < 1710039600000 then - 18000000 else - 14400000)\<rparr>"

definition wire_pending :: wire_request where
  "wire_pending = \<lparr>
     id_wire = ''r1'', staff_name = str ''Ann'', staff_number = ''S1'',
     aircraft_bay = str ''B12'', flight_number = str ''EK202'',
     request_time = TsString ''2024-03-05T08:00:00.000Z'',
     completion_time = TsNull, status_wire = Pending, service_type = Connect,
     aircraft_eta = ''09:15'', delivery_staff_name = None, delivery_staff_number = None \<rparr>"

definition wire_unparseable :: wire_request where
  "wire_unparseable = wire_pending \<lparr> request_time := TsString ''not-a-date'' \<rparr>"

definition wire_completed :: wire_request where
  "wire_completed = wire_pending \<lparr>
     status_wire := Completed, completion_time := TsString ''2024-03-05T14:30:00.000Z'' \<rparr>"

definition wire_completed_no_time :: wire_request where
  "wire_completed_no_time = wire_pending \<lparr> status_wire := Completed \<rparr>"

definition req_pending :: ServiceRequest where
  "req_pending = \<lparr>
     id_req = ''r1'', staffName = str ''Ann'', staffNumber = ''S1'', aircraftBay = str ''B12'',
     flightNumber = str ''EK202'', requestTime = DateAt 1709625600000, completionTime = None,
     status = Pending, serviceType = Connect, aircraftEta = ''09:15'',
     deliveryStaffName = None, deliveryStaffNumber = None \<rparr>"

definition req_other :: ServiceRequest where
  "req_other = req_pending \<lparr>
     id_req := ''r2'', staffName := str ''Bob'', aircraftBay := str ''C7'',
     flightNumber := str ''QR15'', serviceType := Replace \<rparr>"

definition req_completed :: ServiceRequest where
  "req_completed = req_pending \<lparr>
     status := Completed, completionTime := Some (DateAt 1709649000000) \<rparr>"

definition new_fields :: create_fields where
  "new_fields = \<lparr>
     new_staffName = str ''Ann'', new_staffNumber = ''S1'', new_aircraftBay = str ''B12'',
     new_flightNumber = str ''EK202'', new_completionTime = None, new_serviceType = Connect,
     new_aircraftEta = ''09:15'', new_deliveryStaffName = None,
     new_deliveryStaffNumber = None \<rparr>"

text \<open>
  Environments: a service that answers every call, one that fails every call, one that
  answers an update with a record that is completed and carries no completion time, one
  that answers every call with the JSON value null, and the first one in the Eastern zone.
\<close>

definition env_ok :: env where
  "env_ok = \<lparr>
     remote = (\<lambda>c. case c of
                 PostRequest b \<Rightarrow> Inr (JsonObject wire_pending)
               | PatchRequest i u \<Rightarrow> Inr (JsonObject wire_completed)
               | DeleteRequest i \<Rightarrow> Inr JsonNull),
     Date_parse = example_parse, tzone = utc_zone, toLowerCase = ascii_toLowerCase,
     toLocaleDateString_enCA = example_dateString,
     now = 1709649000000, notif_now = 1709649000123 \<rparr>"

definition env_down :: env where
  "env_down = env_ok \<lparr> remote := (\<lambda>c. Inl (ApiError ''API Error: 500 Internal Server Error - '')) \<rparr>"

definition env_no_time :: env where
  "env_no_time = env_ok \<lparr> remote := (\<lambda>c. Inr (JsonObject wire_completed_no_time)) \<rparr>"

definition env_null :: env where
  "env_null = env_ok \<lparr> remote := (\<lambda>c. Inr JsonNull) \<rparr>"

definition env_eastern :: env where
  "env_eastern = env_ok \<lparr> tzone := eastern_zone_2024 \<rparr>"

definition st_example :: app_state where
  "st_example = \<lparr>
     requests = [req_pending, req_other], statusFilter = F_ALL, serviceTypeFilter = F_ALL,
     dateFilter = [], searchTerm = [],
     confirmingComplete = Some ''r1'', confirmingDelete = Some ''r1'',
     completingDelivery = Some ''r1'', notifications = [] \<rparr>"

text \<open>States with a single dialog open: a complete confirmation, a delete confirmation.\<close>

definition st_completing :: app_state where
  "st_completing = st_example \<lparr> confirmingDelete := None, completingDelivery := None \<rparr>"

definition st_deleting :: app_state where
  "st_deleting = st_example \<lparr> confirmingComplete := None, completingDelivery := None \<rparr>"

definition req_third :: ServiceRequest where
  "req_third = req_pending \<lparr>
     id_req := ''r3'', flightNumber := str ''B1234'', serviceType := Disconnect \<rparr>"


definition req_next_day :: ServiceRequest where
  "req_next_day = req_pending \<lparr> id_req := ''r4'', requestTime := DateAt 1709712000000 \<rparr>"

text \<open>A request made at 08:00 Eastern daylight time on 10 March 2024.\<close>

definition req_dst :: ServiceRequest where
  "req_dst = req_pending \<lparr> requestTime := DateAt 1710072000000 \<rparr>"

definition st_dst :: app_state where
  "st_dst = st_example \<lparr> requests := [req_dst, req_other] \<rparr>"


text \<open>
  Filter settings: type Connect, the date 2024-03-05 and the search term "b12"; a
  one-space search term; a search term that is one no-break space.
\<close>

definition st_filter :: app_state where
  "st_filter = st_example \<lparr>
     requests := [req_other, req_third, req_next_day, req_pending],
     serviceTypeFilter := F_Only Connect, dateFilter := ''2024-03-05'',
     searchTerm := str ''b12'' \<rparr>"

definition st_blank :: app_state where
  "st_blank = st_example \<lparr> searchTerm := str '' '' \<rparr>"

definition st_nbsp :: app_state where
  "st_nbsp = st_example \<lparr> searchTerm := [0xA0] \<rparr>"

section \<open>The record transcoder\<close>

text \<open>
  Claim C7, as stated, fails on the code: \<^verbatim>\<open>transformRequest\<close> does not fail when
  \<^verbatim>\<open>request_time\<close> is unparseable. The \<^verbatim>\<open>Date\<close> constructor returns an invalid date
  and the record is decoded all the same.
\<close>

theorem transformRequest_unparseable_counterexample:
  "request_time wire_unparseable = TsString ''not-a-date'' \<and>
   example_parse ''not-a-date'' = None \<and>
   \<not> isl (transformRequest example_parse (JsonObject wire_unparseable)) \<and>
   requestTime (projr (transformRequest example_parse (JsonObject wire_unparseable))) = InvalidDate"
  by (simp add: wire_unparseable_def wire_pending_def example_parse_def)

text \<open>
  Claim C7, amended: decoding a wire record never fails. It renames the fields from the
  wire to the entity convention, passes the enums and the other fields through unchanged,
  turns \<^verbatim>\<open>request_time\<close> into a date that is invalid when the value is absent or
  unparseable, and maps \<^verbatim>\<open>completion_time\<close> so that a falsy value (absent, null, the
  empty string or zero) stays absent while every other value is turned into a date.
\<close>

theorem transformRequest_decodes:
  "\<exists>r. transformRequest parse (JsonObject w) = Inr r \<and>
     id_req r = id_wire w \<and> staffName r = staff_name w \<and> staffNumber r = staff_number w \<and>
     aircraftBay r = aircraft_bay w \<and> flightNumber r = flight_number w \<and>
     aircraftEta r = aircraft_eta w \<and> deliveryStaffName r = delivery_staff_name w \<and>
     deliveryStaffNumber r = delivery_staff_number w \<and>
     status r = status_wire w \<and> serviceType r = service_type w \<and>
     requestTime r = new_Date parse (request_time w) \<and>
     (request_time w = TsUndefined \<longrightarrow> requestTime r = InvalidDate) \<and>
     (\<forall>s. request_time w = TsString s \<and> parse s = None \<longrightarrow> requestTime r = InvalidDate) \<and>
     (\<forall>s t. request_time w = TsString s \<and> parse s = Some t \<longrightarrow> requestTime r = DateAt t) \<and>
     (completion_time w = TsUndefined \<or> completion_time w = TsNull \<or>
      completion_time w = TsString [] \<or> completion_time w = TsNumber 0 \<longrightarrow>
        completionTime r = None) \<and>
     (\<not> truthy (completion_time w) \<longrightarrow> completionTime r = None) \<and>
     (truthy (completion_time w) \<longrightarrow>
        completionTime r = Some (new_Date parse (completion_time w)))"
  by auto

theorem transformRequest_decodes_witness:
  "request_time wire_unparseable = TsString ''not-a-date'' \<and>
   example_parse ''not-a-date'' = None \<and>
   completion_time wire_unparseable = TsNull \<and>
   (\<exists>r. transformRequest example_parse (JsonObject wire_unparseable) = Inr r \<and>
        requestTime r = InvalidDate \<and> completionTime r = None) \<and>
   completion_time wire_completed = TsString ''2024-03-05T14:30:00.000Z'' \<and>
   truthy (completion_time wire_completed) \<and>
   (\<exists>r. transformRequest example_parse (JsonObject wire_completed) = Inr r \<and>
        completionTime r = Some (DateAt 1709649000000))"
  using transformRequest_decodes [of example_parse wire_unparseable]
    transformRequest_decodes [of example_parse wire_completed]
  by (simp add: wire_unparseable_def wire_completed_def wire_pending_def example_parse_def)

section \<open>Facts about the example data\<close>

lemma show_int_notif_now: "show_int 1709649000123 = ''1709649000123''"
  by (simp add: show_int_def show_nat.simps digitChar_def)

lemma notif_now_examples: "notif_now env_ok = 1709649000123" "notif_now env_down = 1709649000123"
  by (simp_all add: env_down_def env_ok_def)

lemma remote_examples:
  "remote env_ok (PostRequest b) = Inr (JsonObject wire_pending)"
  "remote env_ok (PatchRequest i u) = Inr (JsonObject wire_completed)"
  "remote env_ok (DeleteRequest i) = Inr JsonNull"
  "remote env_down c = Inl (ApiError ''API Error: 500 Internal Server Error - '')"
  "remote env_no_time c = Inr (JsonObject wire_completed_no_time)"
  "remote env_null c = Inr JsonNull"
  by (simp_all add: env_ok_def env_down_def env_no_time_def env_null_def)

lemma Date_parse_examples:
  "Date_parse env_ok = example_parse" "Date_parse env_down = example_parse"
  "Date_parse env_no_time = example_parse" "Date_parse env_null = example_parse"
  "notif_now env_no_time = 1709649000123" "notif_now env_null = 1709649000123"
  by (simp_all add: env_ok_def env_down_def env_no_time_def env_null_def)

lemma st_example_fields:
  "requests st_example = [req_pending, req_other]"
  "confirmingComplete st_example = Some ''r1''"
  "confirmingDelete st_example = Some ''r1''"
  "completingDelivery st_example = Some ''r1''"
  "notifications st_example = []"
  by (simp_all add: st_example_def)

lemma st_single_dialog_fields:
  "confirmingComplete st_completing = Some ''r1''" "confirmingDelete st_completing = None"
  "confirmingDelete st_deleting = Some ''r1''" "confirmingComplete st_deleting = None"
  "notifications st_completing = []" "notifications st_deleting = []"
  "requests st_completing = [req_pending, req_other]"
  "requests st_deleting = [req_pending, req_other]"
  by (simp_all add: st_completing_def st_deleting_def st_example_def)

lemma transform_wire_pending:
  "transformRequest example_parse (JsonObject wire_pending) = Inr req_pending"
  unfolding wire_pending_def req_pending_def example_parse_def by simp

lemma transform_wire_completed:
  "transformRequest example_parse (JsonObject wire_completed) = Inr req_completed"
  unfolding wire_completed_def wire_pending_def req_completed_def req_pending_def
    example_parse_def by simp

lemma deleteRequest_env_ok: "deleteRequest env_ok ''r1'' = Inr ()"
  by (simp add: deleteRequest_def env_ok_def)

lemma deleteRequest_env_down:
  "deleteRequest env_down ''r1'' = Inl (ApiError ''API Error: 500 Internal Server Error - '')"
  by (simp add: deleteRequest_def env_down_def env_ok_def)

lemma updateRequest_env_down:
  "updateRequest env_down ''r1'' u = Inl (ApiError ''API Error: 500 Internal Server Error - '')"
  by (simp add: updateRequest_def env_down_def env_ok_def)

section \<open>The request store\<close>

text \<open>
  Claim C5: when the remote create call succeeds with a record, the entity decoded from
  that server-returned record (its id and request time being the server's) is put at the
  front of the local list, the existing entries following it unchanged; when the call
  fails, or its response cannot be decoded, the local list is unchanged and one error
  notification is appended to the queue.
\<close>

theorem addRequest_outcomes:
  "(remote e (PostRequest (createRequest_body request)) = Inr (JsonObject w) \<longrightarrow>
      (\<exists>newRequest.
         transformRequest (Date_parse e) (JsonObject w) = Inr newRequest \<and>
         createRequest e request = Inr newRequest \<and>
         id_req newRequest = id_wire w \<and>
         requestTime newRequest = new_Date (Date_parse e) (request_time w) \<and>
         requests (addRequest e request st) = newRequest # requests st \<and>
         notifications (addRequest e request st) =
           notifications st @
             [\<lparr>id_notif = ''notif-'' @ show_int (notif_now e),
               message = ''Service request created successfully.'', type_notif = Success\<rparr>])) \<and>
   (remote e (PostRequest (createRequest_body request)) = Inl err \<or>
    remote e (PostRequest (createRequest_body request)) = Inr JsonNull \<longrightarrow>
      requests (addRequest e request st) = requests st \<and>
      notifications (addRequest e request st) =
        notifications st @
          [\<lparr>id_notif = ''notif-'' @ show_int (notif_now e),
            message = ''Failed to create service request.'', type_notif = Error\<rparr>]) \<and>
   (createRequest e request = Inr created \<longrightarrow>
      requests (addRequest e request st) = created # requests st) \<and>
   (createRequest e request = Inl err' \<longrightarrow>
      requests (addRequest e request st) = requests st \<and>
      notifications (addRequest e request st) =
        notifications st @
          [\<lparr>id_notif = ''notif-'' @ show_int (notif_now e),
            message = ''Failed to create service request.'', type_notif = Error\<rparr>])"
proof (intro conjI impI)
  assume "remote e (PostRequest (createRequest_body request)) = Inr (JsonObject w)"
  then have c: "createRequest e request = transformRequest (Date_parse e) (JsonObject w)"
    by (simp add: createRequest_def del: transformRequest.simps)
  obtain newRequest where n: "transformRequest (Date_parse e) (JsonObject w) = Inr newRequest"
    by simp
  from n have "id_req newRequest = id_wire w"
    and "requestTime newRequest = new_Date (Date_parse e) (request_time w)"
    by auto
  moreover from c n have "createRequest e request = Inr newRequest"
    by simp
  moreover from this have "requests (addRequest e request st) = newRequest # requests st"
    and "notifications (addRequest e request st) =
           notifications st @
             [\<lparr>id_notif = ''notif-'' @ show_int (notif_now e),
               message = ''Service request created successfully.'', type_notif = Success\<rparr>]"
    by (simp_all add: addRequest_def addNotification_def)
  ultimately show "\<exists>newRequest.
         transformRequest (Date_parse e) (JsonObject w) = Inr newRequest \<and>
         createRequest e request = Inr newRequest \<and>
         id_req newRequest = id_wire w \<and>
         requestTime newRequest = new_Date (Date_parse e) (request_time w) \<and>
         requests (addRequest e request st) = newRequest # requests st \<and>
         notifications (addRequest e request st) =
           notifications st @
             [\<lparr>id_notif = ''notif-'' @ show_int (notif_now e),
               message = ''Service request created successfully.'', type_notif = Success\<rparr>]"
    using n by (intro exI [of _ newRequest] conjI)
next
  assume "remote e (PostRequest (createRequest_body request)) = Inl err \<or>
    remote e (PostRequest (createRequest_body request)) = Inr JsonNull"
  then have "\<exists>x. createRequest e request = Inl x"
    by (auto simp: createRequest_def)
  then show "requests (addRequest e request st) = requests st"
    and "notifications (addRequest e request st) =
        notifications st @
          [\<lparr>id_notif = ''notif-'' @ show_int (notif_now e),
            message = ''Failed to create service request.'', type_notif = Error\<rparr>]"
    by (auto simp: addRequest_def addNotification_def)
next
  assume "createRequest e request = Inr created"
  then show "requests (addRequest e request st) = created # requests st"
    by (simp add: addRequest_def addNotification_def)
next
  assume "createRequest e request = Inl err'"
  then show "requests (addRequest e request st) = requests st"
    and "notifications (addRequest e request st) =
        notifications st @
          [\<lparr>id_notif = ''notif-'' @ show_int (notif_now e),
            message = ''Failed to create service request.'', type_notif = Error\<rparr>]"
    by (simp_all add: addRequest_def addNotification_def)
qed

theorem addRequest_outcomes_witness:
  "remote env_ok (PostRequest (createRequest_body new_fields)) = Inr (JsonObject wire_pending) \<and>
   transformRequest (Date_parse env_ok) (JsonObject wire_pending) = Inr req_pending \<and>
   id_wire wire_pending = ''r1'' \<and> id_req req_pending = ''r1'' \<and>
   requests (addRequest env_ok new_fields st_example) = [req_pending, req_pending, req_other] \<and>
   remote env_down (PostRequest (createRequest_body new_fields)) =
     Inl (ApiError ''API Error: 500 Internal Server Error - '') \<and>
   requests (addRequest env_down new_fields st_example) = [req_pending, req_other] \<and>
   notifications (addRequest env_down new_fields st_example) =
     [\<lparr>id_notif = ''notif-1709649000123'', message = ''Failed to create service request.'',
       type_notif = Error\<rparr>] \<and>
   remote env_null (PostRequest (createRequest_body new_fields)) = Inr JsonNull \<and>
   requests (addRequest env_null new_fields st_example) = [req_pending, req_other]"
proof -
  have ok: "requests (addRequest env_ok new_fields st_example) = [req_pending, req_pending, req_other]"
    using addRequest_outcomes [where e = env_ok and request = new_fields and w = wire_pending
        and st = st_example, THEN conjunct1]
    by (simp add: remote_examples Date_parse_examples transform_wire_pending st_example_fields
        del: transformRequest.simps)
  have down: "requests (addRequest env_down new_fields st_example) = [req_pending, req_other] \<and>
      notifications (addRequest env_down new_fields st_example) =
        [\<lparr>id_notif = ''notif-1709649000123'', message = ''Failed to create service request.'',
          type_notif = Error\<rparr>]"
    using addRequest_outcomes [where e = env_down and request = new_fields
        and st = st_example and err = "ApiError ''API Error: 500 Internal Server Error - ''",
        THEN conjunct2, THEN conjunct1]
    by (simp add: remote_examples notif_now_examples show_int_notif_now st_example_fields)
  have null: "requests (addRequest env_null new_fields st_example) = [req_pending, req_other]"
    using addRequest_outcomes [where e = env_null and request = new_fields
        and st = st_example, THEN conjunct2, THEN conjunct1]
    by (simp add: remote_examples st_example_fields)
  from ok down null show ?thesis
    by (simp add: remote_examples Date_parse_examples transform_wire_pending
        del: transformRequest.simps)
      (simp add: wire_pending_def req_pending_def)
qed

text \<open>
  Claim C6: for a delete with a pending target id, a failed remote call leaves the local
  list as it was and appends one error notification; a successful one removes the entities
  with the target id, keeps all the others in order, and appends one info notification.
\<close>

theorem handleConfirmDelete_outcomes:
  assumes "confirmingDelete st = Some cid" and "cid \<noteq> []"
  shows "(deleteRequest e cid = Inl err \<longrightarrow>
            requests (handleConfirmDelete e st) = requests st \<and>
            notifications (handleConfirmDelete e st) =
              notifications st @
                [\<lparr>id_notif = ''notif-'' @ show_int (notif_now e),
                  message = ''Failed to delete request.'', type_notif = Error\<rparr>]) \<and>
         (deleteRequest e cid = Inr () \<longrightarrow>
            requests (handleConfirmDelete e st) = filter (\<lambda>req. id_req req \<noteq> cid) (requests st) \<and>
            notifications (handleConfirmDelete e st) =
              notifications st @
                [\<lparr>id_notif = ''notif-'' @ show_int (notif_now e),
                  message = ''Request has been deleted.'', type_notif = Info\<rparr>])"
  using assms by (simp add: handleConfirmDelete_def addNotification_def)

theorem handleConfirmDelete_outcomes_witness:
  "confirmingDelete st_example = Some ''r1'' \<and> ''r1'' \<noteq> [] \<and>
   deleteRequest env_down ''r1'' = Inl (ApiError ''API Error: 500 Internal Server Error - '') \<and>
   requests (handleConfirmDelete env_down st_example) = [req_pending, req_other] \<and>
   notifications (handleConfirmDelete env_down st_example) =
     [\<lparr>id_notif = ''notif-1709649000123'', message = ''Failed to delete request.'',
       type_notif = Error\<rparr>] \<and>
   deleteRequest env_ok ''r1'' = Inr () \<and>
   requests (handleConfirmDelete env_ok st_example) = [req_other] \<and>
   notifications (handleConfirmDelete env_ok st_example) =
     [\<lparr>id_notif = ''notif-1709649000123'', message = ''Request has been deleted.'',
       type_notif = Info\<rparr>]"
  using handleConfirmDelete_outcomes [where st = st_example and cid = "''r1''" and e = env_down
      and err = "ApiError ''API Error: 500 Internal Server Error - ''"]
    handleConfirmDelete_outcomes [where st = st_example and cid = "''r1''" and e = env_ok]
  by (simp add: deleteRequest_env_ok deleteRequest_env_down st_example_def show_int_notif_now
      notif_now_examples req_pending_def req_other_def)

section \<open>The confirmation-gated flows\<close>

text \<open>
  Claim C8, as stated, fails on the code: when the remote call fails, the confirm handler
  finishes with the pending id still set, so the flow is still in its confirming state.
\<close>

theorem confirm_failure_stays_confirming_counterexample:
  "confirmingDelete st_example = Some ''r1'' \<and>
   confirmingDelete (handleConfirmDelete env_down st_example) = Some ''r1'' \<and>
   confirmingComplete st_example = Some ''r1'' \<and>
   confirmingComplete (handleConfirmComplete env_down st_example) = Some ''r1''"
  by (simp add: handleConfirmDelete_def handleConfirmComplete_def deleteRequest_env_down
      updateRequest_env_down addNotification_def st_example_def)

text \<open>
  Claim C8, amended: in the complete flow and in the delete flow, each on its own, a
  confirm handler whose remote call succeeds clears the pending id (the flow is idle
  again); one whose remote call fails, or whose response cannot be decoded, leaves the
  pending id set (the flow stays confirming) and queues one error notification; and
  cancelling clears the pending id directly. A confirm handler leaves the pending id of
  the other flow alone.
\<close>

theorem confirm_flows_return_to_idle:
  "(confirmingComplete st = Some cid \<and> cid \<noteq> [] \<longrightarrow>
      (remote e (PatchRequest cid (complete_updates e)) = Inr (JsonObject w) \<longrightarrow>
         confirmingComplete (handleConfirmComplete e st) = None) \<and>
      (remote e (PatchRequest cid (complete_updates e)) = Inl err \<or>
       remote e (PatchRequest cid (complete_updates e)) = Inr JsonNull \<longrightarrow>
         confirmingComplete (handleConfirmComplete e st) = Some cid \<and>
         notifications (handleConfirmComplete e st) =
           notifications st @
             [\<lparr>id_notif = ''notif-'' @ show_int (notif_now e),
               message = ''Failed to mark request as complete.'', type_notif = Error\<rparr>])) \<and>
   (confirmingDelete st = Some did \<and> did \<noteq> [] \<longrightarrow>
      (remote e (DeleteRequest did) = Inr body \<longrightarrow>
         confirmingDelete (handleConfirmDelete e st) = None) \<and>
      (remote e (DeleteRequest did) = Inl err' \<longrightarrow>
         confirmingDelete (handleConfirmDelete e st) = Some did \<and>
         notifications (handleConfirmDelete e st) =
           notifications st @
             [\<lparr>id_notif = ''notif-'' @ show_int (notif_now e),
               message = ''Failed to delete request.'', type_notif = Error\<rparr>])) \<and>
   confirmingDelete (handleConfirmComplete e st) = confirmingDelete st \<and>
   confirmingComplete (handleConfirmDelete e st) = confirmingComplete st \<and>
   confirmingComplete (handleCancelComplete st) = None \<and>
   confirmingDelete (handleCancelDelete st) = None"
proof (intro conjI impI)
  assume p: "confirmingComplete st = Some cid \<and> cid \<noteq> []"
    and r: "remote e (PatchRequest cid (complete_updates e)) = Inr (JsonObject w)"
  obtain u where "transformRequest (Date_parse e) (JsonObject w) = Inr u"
    by simp
  with r have "updateRequest e cid (complete_updates e) = Inr u"
    by (simp add: updateRequest_def del: transformRequest.simps)
  with p show "confirmingComplete (handleConfirmComplete e st) = None"
    by (simp add: handleConfirmComplete_def addNotification_def)
next
  assume p: "confirmingComplete st = Some cid \<and> cid \<noteq> []"
    and r: "remote e (PatchRequest cid (complete_updates e)) = Inl err \<or>
       remote e (PatchRequest cid (complete_updates e)) = Inr JsonNull"
  from r obtain x where "updateRequest e cid (complete_updates e) = Inl x"
    by (auto simp: updateRequest_def)
  with p show "confirmingComplete (handleConfirmComplete e st) = Some cid"
    and "notifications (handleConfirmComplete e st) =
           notifications st @
             [\<lparr>id_notif = ''notif-'' @ show_int (notif_now e),
               message = ''Failed to mark request as complete.'', type_notif = Error\<rparr>]"
    by (simp_all add: handleConfirmComplete_def addNotification_def)
next
  assume p: "confirmingDelete st = Some did \<and> did \<noteq> []"
    and r: "remote e (DeleteRequest did) = Inr body"
  from r have "deleteRequest e did = Inr ()"
    by (simp add: deleteRequest_def)
  with p show "confirmingDelete (handleConfirmDelete e st) = None"
    by (simp add: handleConfirmDelete_def addNotification_def)
next
  assume p: "confirmingDelete st = Some did \<and> did \<noteq> []"
    and r: "remote e (DeleteRequest did) = Inl err'"
  from r have "deleteRequest e did = Inl err'"
    by (simp add: deleteRequest_def)
  with p show "confirmingDelete (handleConfirmDelete e st) = Some did"
    and "notifications (handleConfirmDelete e st) =
           notifications st @
             [\<lparr>id_notif = ''notif-'' @ show_int (notif_now e),
               message = ''Failed to delete request.'', type_notif = Error\<rparr>]"
    by (simp_all add: handleConfirmDelete_def addNotification_def)
next
  show "confirmingDelete (handleConfirmComplete e st) = confirmingDelete st"
    by (simp add: handleConfirmComplete_def addNotification_def split: option.splits sum.splits)
  show "confirmingComplete (handleConfirmDelete e st) = confirmingComplete st"
    by (simp add: handleConfirmDelete_def addNotification_def split: option.splits sum.splits)
  show "confirmingComplete (handleCancelComplete st) = None"
    by (simp add: handleCancelComplete_def)
  show "confirmingDelete (handleCancelDelete st) = None"
    by (simp add: handleCancelDelete_def)
qed

theorem confirm_flows_return_to_idle_witness:
  "confirmingComplete st_completing = Some ''r1'' \<and> confirmingDelete st_completing = None \<and>
   remote env_ok (PatchRequest ''r1'' (complete_updates env_ok)) = Inr (JsonObject wire_completed) \<and>
   confirmingComplete (handleConfirmComplete env_ok st_completing) = None \<and>
   remote env_down (PatchRequest ''r1'' (complete_updates env_down)) =
     Inl (ApiError ''API Error: 500 Internal Server Error - '') \<and>
   confirmingComplete (handleConfirmComplete env_down st_completing) = Some ''r1'' \<and>
   notifications (handleConfirmComplete env_down st_completing) =
     [\<lparr>id_notif = ''notif-1709649000123'', message = ''Failed to mark request as complete.'',
       type_notif = Error\<rparr>] \<and>
   confirmingDelete st_deleting = Some ''r1'' \<and> confirmingComplete st_deleting = None \<and>
   remote env_ok (DeleteRequest ''r1'') = Inr JsonNull \<and>
   confirmingDelete (handleConfirmDelete env_ok st_deleting) = None \<and>
   remote env_down (DeleteRequest ''r1'') =
     Inl (ApiError ''API Error: 500 Internal Server Error - '') \<and>
   confirmingDelete (handleConfirmDelete env_down st_deleting) = Some ''r1'' \<and>
   notifications (handleConfirmDelete env_down st_deleting) =
     [\<lparr>id_notif = ''notif-1709649000123'', message = ''Failed to delete request.'',
       type_notif = Error\<rparr>]"
proof -
  note ok = confirm_flows_return_to_idle [where e = env_ok and cid = "''r1''" and did = "''r1''"
      and w = wire_completed and body = JsonNull]
  note down = confirm_flows_return_to_idle [where e = env_down and cid = "''r1''"
      and did = "''r1''" and err = "ApiError ''API Error: 500 Internal Server Error - ''"
      and err' = "ApiError ''API Error: 500 Internal Server Error - ''"]
  have "confirmingComplete (handleConfirmComplete env_ok st_completing) = None"
    using ok [where st = st_completing, THEN conjunct1]
    by (simp add: st_single_dialog_fields remote_examples)
  moreover have "confirmingDelete (handleConfirmDelete env_ok st_deleting) = None"
    using ok [where st = st_deleting, THEN conjunct2, THEN conjunct1]
    by (simp add: st_single_dialog_fields remote_examples)
  moreover have "confirmingComplete (handleConfirmComplete env_down st_completing) = Some ''r1'' \<and>
      notifications (handleConfirmComplete env_down st_completing) =
        [\<lparr>id_notif = ''notif-1709649000123'', message = ''Failed to mark request as complete.'',
          type_notif = Error\<rparr>]"
    using down [where st = st_completing, THEN conjunct1]
    by (simp add: st_single_dialog_fields remote_examples notif_now_examples show_int_notif_now)
  moreover have "confirmingDelete (handleConfirmDelete env_down st_deleting) = Some ''r1'' \<and>
      notifications (handleConfirmDelete env_down st_deleting) =
        [\<lparr>id_notif = ''notif-1709649000123'', message = ''Failed to delete request.'',
          type_notif = Error\<rparr>]"
    using down [where st = st_deleting, THEN conjunct2, THEN conjunct1]
    by (simp add: st_single_dialog_fields remote_examples notif_now_examples show_int_notif_now)
  ultimately show ?thesis
    by (simp add: st_single_dialog_fields remote_examples)
qed

section \<open>Notification ids\<close>

text \<open>
  Claim C9 against the code: the id of a notification is the text "notif-" followed by
  the clock reading in milliseconds and nothing else. Two messages enqueued within
  the same millisecond get the same id, and dismissing one of them removes both.
\<close>

theorem addNotification_same_clock_same_id:
  "notifications
     (addNotification 1709649000123 ''Failed to delete request.'' Error
        (addNotification 1709649000123 ''Request marked as complete.'' Info
           (st_example \<lparr> notifications := [] \<rparr>))) =
     [\<lparr>id_notif = ''notif-1709649000123'', message = ''Request marked as complete.'',
       type_notif = Info\<rparr>,
      \<lparr>id_notif = ''notif-1709649000123'', message = ''Failed to delete request.'',
       type_notif = Error\<rparr>] \<and>
   notifications
     (removeNotification ''notif-1709649000123''
        (addNotification 1709649000123 ''Failed to delete request.'' Error
           (addNotification 1709649000123 ''Request marked as complete.'' Info
              (st_example \<lparr> notifications := [] \<rparr>)))) = []"
  by (simp add: addNotification_def removeNotification_def show_int_notif_now)

section \<open>Strings, sorting and the example views\<close>

lemma dropWhile_all_iff: "(\<forall>x\<in>set (dropWhile P xs). P x) \<longleftrightarrow> (\<forall>x\<in>set xs. P x)"
  by (induction xs) auto

lemma trim_empty_iff: "trim s = [] \<longleftrightarrow> (\<forall>c\<in>set s. isWhiteSpace c)"
  by (simp add: trim_def dropWhile_eq_Nil_conv dropWhile_all_iff)

lemma startsWith_iff: "startsWith s t \<longleftrightarrow> (\<exists>b. s = t @ b)"
  by (induction s t rule: startsWith.induct) auto

lemma js_includes_iff: "js_includes s t \<longleftrightarrow> (\<exists>a b. s = a @ t @ b)"
proof (induction s)
  case Nil
  then show ?case by simp
next
  case (Cons c cs)
  have "(\<exists>a b. c # cs = a @ t @ b) \<longleftrightarrow> (\<exists>b. c # cs = t @ b) \<or> (\<exists>a b. cs = a @ t @ b)"
  proof
    assume "\<exists>a b. c # cs = a @ t @ b"
    then obtain a b where ab: "c # cs = a @ t @ b" by blast
    show "(\<exists>b. c # cs = t @ b) \<or> (\<exists>a b. cs = a @ t @ b)"
    proof (cases a)
      case Nil
      with ab show ?thesis by auto
    next
      case (Cons x a')
      with ab have "cs = a' @ t @ b" by simp
      then show ?thesis by blast
    qed
  next
    assume "(\<exists>b. c # cs = t @ b) \<or> (\<exists>a b. cs = a @ t @ b)"
    then show "\<exists>a b. c # cs = a @ t @ b"
    proof
      assume "\<exists>b. c # cs = t @ b"
      then obtain b where "c # cs = [] @ t @ b" by auto
      then show ?thesis by blast
    next
      assume "\<exists>a b. cs = a @ t @ b"
      then obtain a b where "c # cs = (c # a) @ t @ b" by auto
      then show ?thesis by blast
    qed
  qed
  with Cons show ?case by (simp add: startsWith_iff)
qed

lemma mset_sort_insert: "mset (sort_insert f x ys) = add_mset x (mset ys)"
  by (induction ys) auto

lemma mset_array_sort: "mset (array_sort f xs) = mset xs"
  by (induction xs) (auto simp: array_sort_def mset_sort_insert)

lemma set_sortedRequests: "set (sortedRequests st) = set (requests st)"
  by (metis mset_array_sort set_mset_mset sortedRequests_def)

lemma if_True_else: "(if A then True else B) = (A \<or> B)"
  by simp

lemma filteredRequests_alt:
  "filteredRequests e st =
     filter (\<lambda>req. trim (searchTerm st) = [] \<or>
                   js_includes (toLowerCase e (flightNumber req)) (toLowerCase e (searchTerm st)) \<or>
                   js_includes (toLowerCase e (aircraftBay req)) (toLowerCase e (searchTerm st)) \<or>
                   js_includes (toLowerCase e (staffName req)) (toLowerCase e (searchTerm st)))
       (filter (\<lambda>req. dateFilter st = [] \<or> toLocaleDateString_enCA e (requestTime req) = dateFilter st)
          (filter (\<lambda>req. serviceTypeFilter st = F_ALL \<or> F_Only (serviceType req) = serviceTypeFilter st)
             (filter (\<lambda>req. statusFilter st = F_ALL \<or> F_Only (status req) = statusFilter st)
                (sortedRequests st))))"
  unfolding filteredRequests_def Let_def if_True_else by (rule refl)

lemma example_request_fields:
  "serviceType req_pending = Connect" "aircraftBay req_pending = str ''B12''"
  "flightNumber req_pending = str ''EK202''" "staffName req_pending = str ''Ann''"
  "serviceType req_third = Disconnect" "aircraftBay req_third = str ''B12''"
  "flightNumber req_third = str ''B1234''" "staffName req_third = str ''Ann''"
  "serviceType req_other = Replace" "aircraftBay req_other = str ''C7''"
  "flightNumber req_other = str ''QR15''" "staffName req_other = str ''Bob''"
  "serviceType req_next_day = Connect" "aircraftBay req_next_day = str ''B12''"
  "flightNumber req_next_day = str ''EK202''" "staffName req_next_day = str ''Ann''"
  "status req_pending = Pending" "status req_third = Pending" "status req_other = Pending"
  "status req_next_day = Pending"
  "requestTime req_pending = DateAt 1709625600000" "requestTime req_third = DateAt 1709625600000"
  "requestTime req_other = DateAt 1709625600000" "requestTime req_next_day = DateAt 1709712000000"
  by (simp_all add: req_pending_def req_third_def req_other_def req_next_day_def)

lemma sorted_st_example: "sortedRequests st_example = [req_pending, req_other]"
  by (simp add: sortedRequests_def st_example_def array_sort_def SortCompare_def
      compareRequests_def example_request_fields)

lemma sorted_st_filter:
  "sortedRequests st_filter = [req_next_day, req_other, req_third, req_pending]"
  by (simp add: sortedRequests_def st_filter_def st_example_def array_sort_def SortCompare_def
      compareRequests_def example_request_fields)

lemma runtime_env_ok:
  "toLowerCase env_ok = ascii_toLowerCase" "toLocaleDateString_enCA env_ok = example_dateString"
  "tzone env_ok = utc_zone"
  by (simp_all add: env_ok_def)

lemma lower_examples:
  "ascii_toLowerCase (str ''b12'') = str ''b12''" "ascii_toLowerCase (str ''B12'') = str ''b12''"
  "ascii_toLowerCase (str ''C7'') = str ''c7''" "ascii_toLowerCase (str ''EK202'') = str ''ek202''"
  "ascii_toLowerCase (str ''B1234'') = str ''b1234''"
  "ascii_toLowerCase (str ''QR15'') = str ''qr15''" "ascii_toLowerCase (str ''Ann'') = str ''ann''"
  "ascii_toLowerCase (str ''Bob'') = str ''bob''" "ascii_toLowerCase (str '' '') = str '' ''"
  by (simp_all add: ascii_toLowerCase_def str_def)

lemma includes_examples:
  "js_includes (str ''b12'') (str ''b12'')" "js_includes (str ''b1234'') (str ''b12'')"
  "\<not> js_includes (str ''ek202'') (str ''b12'')" "\<not> js_includes (str ''ann'') (str ''b12'')"
  "\<not> js_includes (str ''c7'') (str ''b12'')" "\<not> js_includes (str ''qr15'') (str ''b12'')"
  "\<not> js_includes (str ''bob'') (str ''b12'')"
  "\<not> js_includes (str ''ek202'') (str '' '')" "\<not> js_includes (str ''b12'') (str '' '')"
  "\<not> js_includes (str ''ann'') (str '' '')"
  by (simp_all add: str_def)

lemma dateString_examples:
  "example_dateString (DateAt 1709625600000) = ''2024-03-05''"
  "example_dateString (DateAt 1709712000000) = ''2024-03-06''"
  by (simp_all add: example_dateString_def)

lemma st_filter_fields:
  "statusFilter st_filter = F_ALL" "serviceTypeFilter st_filter = F_Only Connect"
  "dateFilter st_filter = ''2024-03-05''" "searchTerm st_filter = str ''b12''"
  "requests st_filter = [req_other, req_third, req_next_day, req_pending]"
  by (simp_all add: st_filter_def st_example_def)

lemma st_blank_fields:
  "statusFilter st_blank = F_ALL" "serviceTypeFilter st_blank = F_ALL"
  "dateFilter st_blank = []" "searchTerm st_blank = str '' ''"
  "requests st_blank = [req_pending, req_other]"
  "statusFilter st_nbsp = F_ALL" "serviceTypeFilter st_nbsp = F_ALL"
  "dateFilter st_nbsp = []" "searchTerm st_nbsp = [0xA0]"
  "requests st_nbsp = [req_pending, req_other]"
  by (simp_all add: st_blank_def st_nbsp_def st_example_def)

lemma trim_examples:
  "trim (str ''b12'') = str ''b12''" "trim (str '' '') = []" "trim [0xA0] = []"
  "str ''b12'' \<noteq> []"
  by (simp_all add: trim_def isWhiteSpace_def str_def)

lemma white_space_examples:
  "isWhiteSpace 0x20" "isWhiteSpace 0xA0" "\<not> isWhiteSpace 98"
  "str '' '' = [0x20]" "str ''b12'' = [98, 49, 50]"
  by (simp_all add: isWhiteSpace_def str_def)

lemma sorted_blank_states:
  "sortedRequests st_blank = [req_pending, req_other]"
  "sortedRequests st_nbsp = [req_pending, req_other]"
  using sorted_st_example
  by (simp_all add: sortedRequests_def st_blank_def st_nbsp_def)

lemma filtered_st_blank: "filteredRequests env_ok st_blank = [req_pending, req_other]"
  by (simp add: filteredRequests_alt sorted_blank_states st_blank_fields trim_examples)

lemma filter_term_not_blank: "\<exists>c\<in>set (searchTerm st_filter). \<not> isWhiteSpace c"
  by (simp add: st_filter_fields white_space_examples)

section \<open>The requester view\<close>

text \<open>
  Claim C10: when every character of the search term is white space (the empty term
  included), the requester view is the result of the status, service-type and date filters
  alone; when the term has a character that is not white space, the view is that result
  filtered by the search clause.
\<close>

theorem blank_search_passes_all:
  "((\<forall>c\<in>set (searchTerm st). isWhiteSpace c) \<longrightarrow>
      filteredRequests e st =
        filter (\<lambda>req. dateFilter st = [] \<or> toLocaleDateString_enCA e (requestTime req) = dateFilter st)
          (filter (\<lambda>req. serviceTypeFilter st = F_ALL \<or> F_Only (serviceType req) = serviceTypeFilter st)
             (filter (\<lambda>req. statusFilter st = F_ALL \<or> F_Only (status req) = statusFilter st)
                (sortedRequests st)))) \<and>
   ((\<exists>c\<in>set (searchTerm st). \<not> isWhiteSpace c) \<longrightarrow>
      filteredRequests e st =
        filter (\<lambda>req. js_includes (toLowerCase e (flightNumber req)) (toLowerCase e (searchTerm st)) \<or>
                      js_includes (toLowerCase e (aircraftBay req)) (toLowerCase e (searchTerm st)) \<or>
                      js_includes (toLowerCase e (staffName req)) (toLowerCase e (searchTerm st)))
          (filter (\<lambda>req. dateFilter st = [] \<or> toLocaleDateString_enCA e (requestTime req) = dateFilter st)
          (filter (\<lambda>req. serviceTypeFilter st = F_ALL \<or> F_Only (serviceType req) = serviceTypeFilter st)
             (filter (\<lambda>req. statusFilter st = F_ALL \<or> F_Only (status req) = statusFilter st)
                (sortedRequests st)))))"
proof (intro conjI impI)
  assume "\<forall>c\<in>set (searchTerm st). isWhiteSpace c"
  then have "trim (searchTerm st) = []"
    by (simp add: trim_empty_iff)
  then show "filteredRequests e st =
      filter (\<lambda>req. dateFilter st = [] \<or> toLocaleDateString_enCA e (requestTime req) = dateFilter st)
          (filter (\<lambda>req. serviceTypeFilter st = F_ALL \<or> F_Only (serviceType req) = serviceTypeFilter st)
             (filter (\<lambda>req. statusFilter st = F_ALL \<or> F_Only (status req) = statusFilter st)
                (sortedRequests st)))"
    by (simp add: filteredRequests_alt del: filter_filter)
next
  assume "\<exists>c\<in>set (searchTerm st). \<not> isWhiteSpace c"
  then have "trim (searchTerm st) \<noteq> []"
    by (simp add: trim_empty_iff)
  then show "filteredRequests e st =
      filter (\<lambda>req. js_includes (toLowerCase e (flightNumber req)) (toLowerCase e (searchTerm st)) \<or>
                    js_includes (toLowerCase e (aircraftBay req)) (toLowerCase e (searchTerm st)) \<or>
                    js_includes (toLowerCase e (staffName req)) (toLowerCase e (searchTerm st)))
        (filter (\<lambda>req. dateFilter st = [] \<or> toLocaleDateString_enCA e (requestTime req) = dateFilter st)
          (filter (\<lambda>req. serviceTypeFilter st = F_ALL \<or> F_Only (serviceType req) = serviceTypeFilter st)
             (filter (\<lambda>req. statusFilter st = F_ALL \<or> F_Only (status req) = statusFilter st)
                (sortedRequests st))))"
    by (simp add: filteredRequests_alt del: filter_filter)
qed

theorem blank_search_passes_all_witness:
  "searchTerm st_blank = [0x20] \<and> isWhiteSpace 0x20 \<and>
   filteredRequests env_ok st_blank = sortedRequests st_blank \<and>
   searchTerm st_nbsp = [0xA0] \<and> isWhiteSpace 0xA0 \<and>
   filteredRequests env_ok st_nbsp = sortedRequests st_nbsp \<and>
   searchTerm st_filter = [98, 49, 50] \<and> \<not> isWhiteSpace 98 \<and>
   filteredRequests env_ok st_filter = [req_pending] \<and>
   sortedRequests st_filter = [req_next_day, req_other, req_third, req_pending]"
proof -
  have "filteredRequests env_ok st_blank = sortedRequests st_blank"
    using blank_search_passes_all [of st_blank env_ok, THEN conjunct1]
    by (simp add: st_blank_fields white_space_examples)
  moreover have "filteredRequests env_ok st_nbsp = sortedRequests st_nbsp"
    using blank_search_passes_all [of st_nbsp env_ok, THEN conjunct1]
    by (simp add: st_blank_fields white_space_examples)
  moreover have "filteredRequests env_ok st_filter = [req_pending]"
    using blank_search_passes_all [of st_filter env_ok, THEN conjunct2, THEN mp,
        OF filter_term_not_blank]
    by (simp add: sorted_st_filter st_filter_fields example_request_fields
        runtime_env_ok lower_examples includes_examples dateString_examples)
  ultimately show ?thesis
    by (simp add: st_blank_fields st_filter_fields white_space_examples sorted_st_filter)
qed

text \<open>
  Claim C4, as stated, fails on the code: with the one-space search term, which occurs in
  none of the three searched fields of the entity, the entity is kept all the same.
\<close>

theorem blank_term_kept_without_match_counterexample:
  "searchTerm st_blank = str '' '' \<and>
   req_pending \<in> set (filteredRequests env_ok st_blank) \<and>
   \<not> js_includes (toLowerCase env_ok (flightNumber req_pending))
       (toLowerCase env_ok (searchTerm st_blank)) \<and>
   \<not> js_includes (toLowerCase env_ok (aircraftBay req_pending))
       (toLowerCase env_ok (searchTerm st_blank)) \<and>
   \<not> js_includes (toLowerCase env_ok (staffName req_pending))
       (toLowerCase env_ok (searchTerm st_blank))"
  by (simp add: filtered_st_blank st_blank_fields example_request_fields runtime_env_ok
      lower_examples includes_examples)

text \<open>
  Claim C4, amended: the requester view is the sorted list filtered by the conjunction of
  four conditions, and so keeps an entity of the store exactly when all four hold: the
  status filter is ALL or equals the entity's status; the service-type filter is ALL or
  equals the entity's type; the date filter is empty or equals the en-CA date string of
  the request time (its local calendar date as the runtime prints it); and the search
  term is blank (white space only) or its lower-case form, as the runtime's toLowerCase
  gives it, is a substring of the lower-case flight number, aircraft bay or requester name.
\<close>

theorem filteredRequests_keeps_exactly:
  "filteredRequests e st =
     filter (\<lambda>r.
        (statusFilter st = F_ALL \<or> statusFilter st = F_Only (status r)) \<and>
        (serviceTypeFilter st = F_ALL \<or> serviceTypeFilter st = F_Only (serviceType r)) \<and>
        (dateFilter st = [] \<or> toLocaleDateString_enCA e (requestTime r) = dateFilter st) \<and>
        ((\<forall>c\<in>set (searchTerm st). isWhiteSpace c) \<or>
         (\<exists>a b. toLowerCase e (flightNumber r) = a @ toLowerCase e (searchTerm st) @ b) \<or>
         (\<exists>a b. toLowerCase e (aircraftBay r) = a @ toLowerCase e (searchTerm st) @ b) \<or>
         (\<exists>a b. toLowerCase e (staffName r) = a @ toLowerCase e (searchTerm st) @ b)))
       (sortedRequests st) \<and>
   (r \<in> set (filteredRequests e st) \<longleftrightarrow>
      r \<in> set (requests st) \<and>
      (statusFilter st = F_ALL \<or> statusFilter st = F_Only (status r)) \<and>
      (serviceTypeFilter st = F_ALL \<or> serviceTypeFilter st = F_Only (serviceType r)) \<and>
      (dateFilter st = [] \<or> toLocaleDateString_enCA e (requestTime r) = dateFilter st) \<and>
      ((\<forall>c\<in>set (searchTerm st). isWhiteSpace c) \<or>
       (\<exists>a b. toLowerCase e (flightNumber r) = a @ toLowerCase e (searchTerm st) @ b) \<or>
       (\<exists>a b. toLowerCase e (aircraftBay r) = a @ toLowerCase e (searchTerm st) @ b) \<or>
       (\<exists>a b. toLowerCase e (staffName r) = a @ toLowerCase e (searchTerm st) @ b)))"
proof -
  have list_eq: "filteredRequests e st =
     filter (\<lambda>r.
        (statusFilter st = F_ALL \<or> statusFilter st = F_Only (status r)) \<and>
        (serviceTypeFilter st = F_ALL \<or> serviceTypeFilter st = F_Only (serviceType r)) \<and>
        (dateFilter st = [] \<or> toLocaleDateString_enCA e (requestTime r) = dateFilter st) \<and>
        ((\<forall>c\<in>set (searchTerm st). isWhiteSpace c) \<or>
         (\<exists>a b. toLowerCase e (flightNumber r) = a @ toLowerCase e (searchTerm st) @ b) \<or>
         (\<exists>a b. toLowerCase e (aircraftBay r) = a @ toLowerCase e (searchTerm st) @ b) \<or>
         (\<exists>a b. toLowerCase e (staffName r) = a @ toLowerCase e (searchTerm st) @ b)))
       (sortedRequests st)"
    unfolding filteredRequests_alt filter_filter trim_empty_iff js_includes_iff
    by (rule filter_cong) auto
  show ?thesis
    apply (rule conjI)
     apply (rule list_eq)
    apply (subst list_eq)
    apply (simp add: set_sortedRequests)
    done
qed

theorem filteredRequests_keeps_exactly_witness:
  "statusFilter st_filter = F_ALL \<and> serviceTypeFilter st_filter = F_Only Connect \<and>
   dateFilter st_filter = ''2024-03-05'' \<and> searchTerm st_filter = str ''b12'' \<and>
   requests st_filter = [req_other, req_third, req_next_day, req_pending] \<and>
   serviceType req_pending = Connect \<and>
   toLocaleDateString_enCA env_ok (requestTime req_pending) = ''2024-03-05'' \<and>
   toLowerCase env_ok (aircraftBay req_pending) = str ''b12'' \<and>
   req_pending \<in> set (filteredRequests env_ok st_filter) \<and>
   serviceType req_third = Disconnect \<and>
   toLowerCase env_ok (flightNumber req_third) = str ''b1234'' \<and>
   req_third \<notin> set (filteredRequests env_ok st_filter) \<and>
   serviceType req_next_day = Connect \<and>
   toLocaleDateString_enCA env_ok (requestTime req_next_day) = ''2024-03-06'' \<and>
   req_next_day \<notin> set (filteredRequests env_ok st_filter) \<and>
   serviceType req_other = Replace \<and>
   req_other \<notin> set (filteredRequests env_ok st_filter)"
proof -
  note inst = filteredRequests_keeps_exactly [of env_ok st_filter, THEN conjunct2,
      unfolded js_includes_iff [symmetric] trim_empty_iff [symmetric]]
  note facts = st_filter_fields example_request_fields runtime_env_ok lower_examples
    includes_examples dateString_examples trim_examples
  have "req_pending \<in> set (filteredRequests env_ok st_filter)"
    using inst [of req_pending] by (simp add: facts)
  moreover have "req_third \<notin> set (filteredRequests env_ok st_filter)"
    using inst [of req_third] by (simp add: facts)
  moreover have "req_next_day \<notin> set (filteredRequests env_ok st_filter)"
    using inst [of req_next_day] by (simp add: facts)
  moreover have "req_other \<notin> set (filteredRequests env_ok st_filter)"
    using inst [of req_other] by (simp add: facts)
  ultimately show ?thesis
    by (simp add: facts)
qed

section \<open>The sorted view\<close>










section \<open>The delivery-completion workflow\<close>

text \<open>
  A time-of-day string of two digits, a colon and two digits splits into its two fields,
  and both convert to the numbers they denote.
\<close>

lemma isDigit_not_special: "isDigit c \<Longrightarrow> c \<noteq> of_char CHR '':'' \<and> \<not> isWhiteSpace c"
  by (auto simp: isDigit_def isWhiteSpace_def)

lemma trim_two_digits: "isDigit a \<Longrightarrow> isDigit b \<Longrightarrow> trim [a, b] = [a, b]"
  by (simp add: trim_def isDigit_not_special)

lemma js_Number_two_digits:
  "isDigit a \<Longrightarrow> isDigit b \<Longrightarrow> js_Number [a, b] = Some (int (digitsValue [a, b]))"
  by (simp add: js_Number_def trim_two_digits)

lemma js_split_hhmm:
  assumes "isDigit a" "isDigit b" "isDigit c" "isDigit d"
  shows "js_split (of_char CHR '':'') [a, b, of_char CHR '':'', c, d] = [[a, b], [c, d]]"
  using assms isDigit_not_special [of a] isDigit_not_special [of b]
    isDigit_not_special [of c] isDigit_not_special [of d]
  by simp

lemma delivery_completionDate_hhmm:
  assumes "requestTime r = DateAt t" and "isDigit a" "isDigit b" "isDigit c" "isDigit d"
  shows "delivery_completionDate zn r [a, b, of_char CHR '':'', c, d] =
         DateAt (UTC zn (MakeDate (Day (LocalTime zn t))
                   (MakeTime (int (digitsValue [a, b])) (int (digitsValue [c, d])) 0 0)))"
  using assms
  by (simp add: delivery_completionDate_def js_split_hhmm js_Number_two_digits
      del: js_split.simps of_char_Char)

lemma time_fields_of_MakeDate:
  fixes D h m :: int
  assumes "0 \<le> h" "h < 24" "0 \<le> m" "m < 60"
  shows "Day (MakeDate D (MakeTime h m 0 0)) = D"
    and "HourFromTime (MakeDate D (MakeTime h m 0 0)) = h"
    and "MinFromTime (MakeDate D (MakeTime h m 0 0)) = m"
    and "SecFromTime (MakeDate D (MakeTime h m 0 0)) = 0"
    and "msFromTime (MakeDate D (MakeTime h m 0 0)) = 0"
proof -
  let ?T = "MakeDate D (MakeTime h m 0 0)"
  have T: "?T = D * 86400000 + h * 3600000 + m * 60000"
    by (simp add: MakeDate_def MakeTime_def msPerDay_def msPerHour_def msPerMinute_def)
  have "?T div 86400000 = D"
    by (rule int_div_pos_eq [where r = "h * 3600000 + m * 60000"]) (use assms T in auto)
  then show "Day ?T = D"
    by (simp add: Day_def msPerDay_def)
  have "?T div 3600000 = D * 24 + h"
    by (rule int_div_pos_eq [where r = "m * 60000"]) (use assms T in auto)
  moreover have "(D * 24 + h) mod 24 = h"
    using assms by simp
  ultimately show "HourFromTime ?T = h"
    by (simp add: HourFromTime_def msPerHour_def)
  have "?T div 60000 = D * 1440 + h * 60 + m"
    by (rule int_div_pos_eq [where r = 0]) (use assms T in auto)
  moreover have "(D * 1440 + h * 60 + m) mod 60 = m"
    by (rule int_mod_pos_eq [where q = "D * 24 + h"]) (use assms in auto)
  ultimately show "MinFromTime ?T = m"
    by (simp add: MinFromTime_def msPerMinute_def)
  have "?T div 1000 = (D * 1440 + h * 60 + m) * 60"
    by (rule int_div_pos_eq [where r = 0]) (use assms T in auto)
  then show "SecFromTime ?T = 0"
    by (simp add: SecFromTime_def msPerSecond_def)
  have "?T mod 1000 = 0"
    by (rule int_mod_pos_eq [where q = "D * 86400 + h * 3600 + m * 60"]) (use assms T in auto)
  then show "msFromTime ?T = 0"
    by (simp add: msFromTime_def msPerSecond_def)
qed

lemma fixed_offset_round_trip:
  assumes "\<forall>x. LocalTZA_utc zn x = k \<and> LocalTZA_local zn x = k"
  shows "LocalTime zn (UTC zn x) = x"
  using assms by (simp add: LocalTime_def UTC_def)

lemma local_datetime_examples:
  "local_datetime 2024 3 5 8 0 0 = 1709625600000"
  "local_datetime 2024 3 5 14 30 0 = 1709649000000"
  "local_datetime 2024 3 10 8 0 0 = 1710057600000"
  "local_datetime 2024 3 10 2 30 0 = 1710037800000"
  "local_datetime 2024 3 10 3 30 0 = 1710041400000"
  by (simp_all add: local_datetime_def MakeDate_def MakeTime_def days_from_civil_def
      msPerDay_def msPerHour_def msPerMinute_def msPerSecond_def)

lemma digit_examples:
  "isDigit 48" "isDigit 49" "isDigit 50" "isDigit 51" "isDigit 52"
  "digitsValue [49, 52] = 14" "digitsValue [51, 48] = 30" "digitsValue [48, 50] = 2"
  "str ''14:30'' = [49, 52, of_char CHR '':'', 51, 48]"
  "str ''02:30'' = [48, 50, of_char CHR '':'', 51, 48]"
  by (simp_all add: isDigit_def digitsValue_def str_def)

lemma utc_zone_times: "LocalTime utc_zone x = x" "UTC utc_zone x = x"
  by (simp_all add: LocalTime_def UTC_def utc_zone_def)

lemma eastern_zone_times:
  "LocalTime eastern_zone_2024 1710072000000 = 1710057600000"
  "UTC eastern_zone_2024 1710037800000 = 1710055800000"
  "LocalTime eastern_zone_2024 1710055800000 = 1710041400000"
  by (simp_all add: LocalTime_def UTC_def eastern_zone_2024_def)

lemma example_ids: "id_req req_pending = ''r1''" "id_req req_other = ''r2''" "id_req req_dst = ''r1''"
  by (simp_all add: req_pending_def req_other_def req_dst_def)

lemma st_dst_fields:
  "requests st_dst = [req_dst, req_other]" "completingDelivery st_dst = Some ''r1''"
  "requestTime req_dst = DateAt 1710072000000" "tzone env_eastern = eastern_zone_2024"
  by (simp_all add: st_dst_def st_example_def req_dst_def env_eastern_def)

text \<open>
  Claim C2, as stated, fails on the code in a time zone with daylight saving: for a
  request made on 10 March 2024 at 08:00 Eastern time and the input 02:30, a local time
  that the change of offset skips that day, the completion time that the workflow puts
  into its update reads 03:30 on the local clock, not 02:30.
\<close>

theorem delivery_completion_dst_gap_counterexample:
  "completingDelivery st_dst = Some ''r1'' \<and>
   find (\<lambda>x. id_req x = ''r1'') (requests st_dst) = Some req_dst \<and>
   requestTime req_dst = DateAt 1710072000000 \<and>
   LocalTime (tzone env_eastern) 1710072000000 = local_datetime 2024 3 10 8 0 0 \<and>
   delivery_updates env_eastern req_dst ''Dan'' ''D7'' (str ''02:30'') =
     \<lparr>upd_status = Some Completed, upd_completionTime = Some (DateAt 1710055800000),
      upd_deliveryStaffName = Some ''Dan'', upd_deliveryStaffNumber = Some ''D7''\<rparr> \<and>
   LocalTime (tzone env_eastern) 1710055800000 = local_datetime 2024 3 10 3 30 0 \<and>
   HourFromTime (LocalTime (tzone env_eastern) 1710055800000) = 3 \<and>
   MinFromTime (LocalTime (tzone env_eastern) 1710055800000) = 30"
proof -
  have "delivery_completionDate eastern_zone_2024 req_dst (str ''02:30'') =
      DateAt 1710055800000"
    using delivery_completionDate_hhmm [OF st_dst_fields(3) digit_examples(1) digit_examples(3)
        digit_examples(4) digit_examples(1), of eastern_zone_2024]
    by (simp add: digit_examples eastern_zone_times MakeDate_def MakeTime_def Day_def
        msPerDay_def msPerHour_def msPerMinute_def msPerSecond_def del: of_char_Char)
  then show ?thesis
    by (simp add: st_dst_fields example_ids delivery_updates_def eastern_zone_times
        local_datetime_examples HourFromTime_def MinFromTime_def msPerHour_def msPerMinute_def)
qed

text \<open>
  Claim C2, amended: for every target entity with a valid request time and every
  time-of-day input HH:MM (two digits each, HH below 24, MM below 60), the delivery
  workflow dispatches one update whose completion time is the time value that the runtime's
  zone rules give to the local date and time made of the local calendar day of the request
  time and HH:MM:00.000; the clock plays no part in it, and the handler applies the
  response to that update. Whenever that local time exists in the zone (it converts to
  UTC and back unchanged, as every local time does in a zone with a fixed offset), the
  completion time lies on the calendar day of the request time with hour HH, minute MM
  and zero seconds and milliseconds; so a request time of 2024-03-05T08:00:00 and the
  input 14:30 give 2024-03-05T14:30:00.
\<close>

theorem delivery_completion_same_day:
  assumes "completingDelivery st = Some cid" and "cid \<noteq> []"
    and "find (\<lambda>x. id_req x = cid) (requests st) = Some r"
    and "requestTime r = DateAt t"
    and "isDigit a" "isDigit b" "isDigit c" "isDigit d"
    and "digitsValue [a, b] < 24" "digitsValue [c, d] < 60"
  shows "\<exists>u.
     u = UTC (tzone e) (MakeDate (Day (LocalTime (tzone e) t))
            (MakeTime (int (digitsValue [a, b])) (int (digitsValue [c, d])) 0 0)) \<and>
     delivery_updates e r name number [a, b, of_char CHR '':'', c, d] =
       \<lparr>upd_status = Some Completed, upd_completionTime = Some (DateAt u),
        upd_deliveryStaffName = Some name, upd_deliveryStaffNumber = Some number\<rparr> \<and>
     delivery_updates (e\<lparr>now := n, notif_now := n'\<rparr>) r name number
         [a, b, of_char CHR '':'', c, d] =
       delivery_updates e r name number [a, b, of_char CHR '':'', c, d] \<and>
     (remote e (PatchRequest cid
          \<lparr>upd_status = Some Completed, upd_completionTime = Some (DateAt u),
           upd_deliveryStaffName = Some name, upd_deliveryStaffNumber = Some number\<rparr>) =
        Inr (JsonObject w) \<longrightarrow>
      (\<exists>updated. transformRequest (Date_parse e) (JsonObject w) = Inr updated \<and>
         requests (handleConfirmCompleteDelivery e name number [a, b, of_char CHR '':'', c, d] st) =
           map (\<lambda>req. if id_req req = cid then updated else req) (requests st) \<and>
         completingDelivery
           (handleConfirmCompleteDelivery e name number [a, b, of_char CHR '':'', c, d] st) = None)) \<and>
     (remote e (PatchRequest cid
          \<lparr>upd_status = Some Completed, upd_completionTime = Some (DateAt u),
           upd_deliveryStaffName = Some name, upd_deliveryStaffNumber = Some number\<rparr>) =
        Inl err \<longrightarrow>
      handleConfirmCompleteDelivery e name number [a, b, of_char CHR '':'', c, d] st =
        addNotification (notif_now e) ''Failed to complete task.'' Error st) \<and>
     (LocalTime (tzone e) u =
        MakeDate (Day (LocalTime (tzone e) t))
          (MakeTime (int (digitsValue [a, b])) (int (digitsValue [c, d])) 0 0) \<or>
      (\<forall>x. LocalTZA_utc (tzone e) x = k \<and> LocalTZA_local (tzone e) x = k) \<longrightarrow>
      Day (LocalTime (tzone e) u) = Day (LocalTime (tzone e) t) \<and>
      HourFromTime (LocalTime (tzone e) u) = int (digitsValue [a, b]) \<and>
      MinFromTime (LocalTime (tzone e) u) = int (digitsValue [c, d]) \<and>
      SecFromTime (LocalTime (tzone e) u) = 0 \<and> msFromTime (LocalTime (tzone e) u) = 0) \<and>
     (LocalTime (tzone e) t = local_datetime 2024 3 5 8 0 0 \<and>
      [a, b, c, d] = [49, 52, 51, 48] \<and>
      LocalTime (tzone e) (UTC (tzone e) (local_datetime 2024 3 5 14 30 0)) =
        local_datetime 2024 3 5 14 30 0 \<longrightarrow>
      LocalTime (tzone e) u = local_datetime 2024 3 5 14 30 0)"
proof -
  let ?s = "[a, b, of_char CHR '':'', c, d]"
  let ?h = "int (digitsValue [a, b])" and ?m = "int (digitsValue [c, d])"
  let ?x = "MakeDate (Day (LocalTime (tzone e) t)) (MakeTime ?h ?m 0 0)"
  let ?u = "UTC (tzone e) ?x"
  let ?upd = "\<lparr>upd_status = Some Completed, upd_completionTime = Some (DateAt ?u),
        upd_deliveryStaffName = Some name, upd_deliveryStaffNumber = Some number\<rparr>"
  have bounds: "0 \<le> ?h" "?h < 24" "0 \<le> ?m" "?m < 60"
    using assms(9,10) by simp_all
  have cd: "delivery_completionDate zn r ?s =
      DateAt (UTC zn (MakeDate (Day (LocalTime zn t)) (MakeTime ?h ?m 0 0)))" for zn
    using assms(4-8) by (rule delivery_completionDate_hhmm)
  have upd: "delivery_updates e r name number ?s = ?upd"
    by (simp only: delivery_updates_def cd)
  have clock: "delivery_updates (e\<lparr>now := n, notif_now := n'\<rparr>) r name number ?s =
      delivery_updates e r name number ?s"
    by (simp add: delivery_updates_def)
  have ok: "\<exists>updated. transformRequest (Date_parse e) (JsonObject w) = Inr updated \<and>
         requests (handleConfirmCompleteDelivery e name number ?s st) =
           map (\<lambda>req. if id_req req = cid then updated else req) (requests st) \<and>
         completingDelivery (handleConfirmCompleteDelivery e name number ?s st) = None"
    if r: "remote e (PatchRequest cid ?upd) = Inr (JsonObject w)"
  proof -
    obtain updated where t: "transformRequest (Date_parse e) (JsonObject w) = Inr updated"
      by simp
    with r have "updateRequest e cid (delivery_updates e r name number ?s) = Inr updated"
      by (simp only: upd updateRequest_def sum.case)
    with assms(1-3) have
      "requests (handleConfirmCompleteDelivery e name number ?s st) =
         map (\<lambda>req. if id_req req = cid then updated else req) (requests st)"
      "completingDelivery (handleConfirmCompleteDelivery e name number ?s st) = None"
      by (simp_all add: handleConfirmCompleteDelivery_def addNotification_def
          del: of_char_Char)
    with t show ?thesis by blast
  qed
  have fail: "handleConfirmCompleteDelivery e name number ?s st =
        addNotification (notif_now e) ''Failed to complete task.'' Error st"
    if r: "remote e (PatchRequest cid ?upd) = Inl err"
  proof -
    from r have "updateRequest e cid (delivery_updates e r name number ?s) = Inl err"
      by (simp only: upd updateRequest_def sum.case)
    with assms(1-3) show ?thesis
      by (simp add: handleConfirmCompleteDelivery_def del: of_char_Char)
  qed
  have fields: "Day (LocalTime (tzone e) ?u) = Day (LocalTime (tzone e) t) \<and>
      HourFromTime (LocalTime (tzone e) ?u) = ?h \<and> MinFromTime (LocalTime (tzone e) ?u) = ?m \<and>
      SecFromTime (LocalTime (tzone e) ?u) = 0 \<and> msFromTime (LocalTime (tzone e) ?u) = 0"
    if rt: "LocalTime (tzone e) ?u = ?x \<or>
      (\<forall>x. LocalTZA_utc (tzone e) x = k \<and> LocalTZA_local (tzone e) x = k)"
  proof -
    from rt have "LocalTime (tzone e) ?u = ?x"
      using fixed_offset_round_trip [of "tzone e" k ?x] by blast
    then show ?thesis
      by (simp only: time_fields_of_MakeDate [OF bounds] simp_thms)
  qed
  have example: "LocalTime (tzone e) ?u = local_datetime 2024 3 5 14 30 0"
    if ex: "LocalTime (tzone e) t = local_datetime 2024 3 5 8 0 0 \<and>
      [a, b, c, d] = [49, 52, 51, 48] \<and>
      LocalTime (tzone e) (UTC (tzone e) (local_datetime 2024 3 5 14 30 0)) =
        local_datetime 2024 3 5 14 30 0"
  proof -
    from ex have hm: "?h = 14" "?m = 30"
      by (simp_all add: digit_examples)
    from ex have "Day (LocalTime (tzone e) t) = 19787"
      by (simp add: local_datetime_examples Day_def msPerDay_def)
    then have "?x = local_datetime 2024 3 5 14 30 0"
      by (simp add: hm local_datetime_examples MakeDate_def MakeTime_def msPerDay_def
          msPerHour_def msPerMinute_def msPerSecond_def)
    with ex show ?thesis
      by simp
  qed
  show ?thesis
    apply (rule exI [of _ ?u])
    apply (intro conjI)
          apply (rule refl)
         apply (rule upd)
        apply (rule clock)
       apply (rule impI, erule ok)
      apply (rule impI, erule fail)
     apply (rule impI, erule fields)
    apply (rule impI, erule example)
    done
qed

theorem delivery_completion_same_day_witness:
  "completingDelivery st_example = Some ''r1'' \<and>
   find (\<lambda>x. id_req x = ''r1'') (requests st_example) = Some req_pending \<and>
   requestTime req_pending = DateAt 1709625600000 \<and>
   LocalTime (tzone env_ok) 1709625600000 = local_datetime 2024 3 5 8 0 0 \<and>
   str ''14:30'' = [49, 52, of_char CHR '':'', 51, 48] \<and>
   isDigit 49 \<and> isDigit 52 \<and> isDigit 51 \<and> isDigit 48 \<and>
   digitsValue [49, 52] = 14 \<and> digitsValue [51, 48] = 30 \<and>
   delivery_updates env_ok req_pending ''Dan'' ''D7'' (str ''14:30'') =
     \<lparr>upd_status = Some Completed, upd_completionTime = Some (DateAt 1709649000000),
      upd_deliveryStaffName = Some ''Dan'', upd_deliveryStaffNumber = Some ''D7''\<rparr> \<and>
   requests (handleConfirmCompleteDelivery env_ok ''Dan'' ''D7'' (str ''14:30'') st_example) =
     [req_completed, req_other] \<and>
   completingDelivery
     (handleConfirmCompleteDelivery env_ok ''Dan'' ''D7'' (str ''14:30'') st_example) = None \<and>
   LocalTime (tzone env_ok) 1709649000000 = local_datetime 2024 3 5 14 30 0 \<and>
   HourFromTime (LocalTime (tzone env_ok) 1709649000000) = 14 \<and>
   MinFromTime (LocalTime (tzone env_ok) 1709649000000) = 30 \<and>
   SecFromTime (LocalTime (tzone env_ok) 1709649000000) = 0"
proof -
  have r: "requestTime req_pending = DateAt 1709625600000"
    by (simp add: req_pending_def)
  have f: "find (\<lambda>x. id_req x = ''r1'') (requests st_example) = Some req_pending"
    by (simp add: st_example_fields example_ids)
  have ne: "''r1'' \<noteq> []"
    by simp
  have b: "digitsValue [49, 52] < 24" "digitsValue [51, 48] < 60"
    by (simp_all add: digit_examples)
  have z: "tzone env_ok = utc_zone"
    by (simp add: env_ok_def)
  from delivery_completion_same_day [OF st_example_fields(4) ne f r digit_examples(2)
      digit_examples(5) digit_examples(4) digit_examples(1) b,
      where e = env_ok and name = "''Dan''" and number = "''D7''" and w = wire_completed
      and k = 0]
  obtain u where u: "u = UTC (tzone env_ok) (MakeDate (Day (LocalTime (tzone env_ok) 1709625600000))
            (MakeTime (int (digitsValue [49, 52])) (int (digitsValue [51, 48])) 0 0))"
    and upd: "delivery_updates env_ok req_pending ''Dan'' ''D7'' [49, 52, of_char CHR '':'', 51, 48] =
       \<lparr>upd_status = Some Completed, upd_completionTime = Some (DateAt u),
        upd_deliveryStaffName = Some ''Dan'', upd_deliveryStaffNumber = Some ''D7''\<rparr>"
    and ok: "remote env_ok (PatchRequest ''r1''
          \<lparr>upd_status = Some Completed, upd_completionTime = Some (DateAt u),
           upd_deliveryStaffName = Some ''Dan'', upd_deliveryStaffNumber = Some ''D7''\<rparr>) =
        Inr (JsonObject wire_completed) \<longrightarrow>
      (\<exists>updated. transformRequest (Date_parse env_ok) (JsonObject wire_completed) = Inr updated \<and>
         requests (handleConfirmCompleteDelivery env_ok ''Dan'' ''D7''
             [49, 52, of_char CHR '':'', 51, 48] st_example) =
           map (\<lambda>req. if id_req req = ''r1'' then updated else req) (requests st_example) \<and>
         completingDelivery
           (handleConfirmCompleteDelivery env_ok ''Dan'' ''D7''
             [49, 52, of_char CHR '':'', 51, 48] st_example) = None)"
    and fields: "LocalTime (tzone env_ok) u =
        MakeDate (Day (LocalTime (tzone env_ok) 1709625600000))
          (MakeTime (int (digitsValue [49, 52])) (int (digitsValue [51, 48])) 0 0) \<or>
      (\<forall>x. LocalTZA_utc (tzone env_ok) x = 0 \<and> LocalTZA_local (tzone env_ok) x = 0) \<longrightarrow>
      Day (LocalTime (tzone env_ok) u) = Day (LocalTime (tzone env_ok) 1709625600000) \<and>
      HourFromTime (LocalTime (tzone env_ok) u) = int (digitsValue [49, 52]) \<and>
      MinFromTime (LocalTime (tzone env_ok) u) = int (digitsValue [51, 48]) \<and>
      SecFromTime (LocalTime (tzone env_ok) u) = 0 \<and> msFromTime (LocalTime (tzone env_ok) u) = 0"
    by blast
  have uval: "u = 1709649000000"
    by (simp add: u z utc_zone_times digit_examples Day_def MakeDate_def MakeTime_def
        msPerDay_def msPerHour_def msPerMinute_def msPerSecond_def)
  have handler:
    "requests (handleConfirmCompleteDelivery env_ok ''Dan'' ''D7'' (str ''14:30'') st_example) =
       [req_completed, req_other] \<and>
     completingDelivery
       (handleConfirmCompleteDelivery env_ok ''Dan'' ''D7'' (str ''14:30'') st_example) = None"
    using ok
    by (simp add: remote_examples Date_parse_examples transform_wire_completed
        st_example_fields example_ids digit_examples(9) del: transformRequest.simps of_char_Char)
  have tf: "HourFromTime (LocalTime (tzone env_ok) 1709649000000) = 14 \<and>
      MinFromTime (LocalTime (tzone env_ok) 1709649000000) = 30 \<and>
      SecFromTime (LocalTime (tzone env_ok) 1709649000000) = 0"
    using fields by (simp add: uval z utc_zone_def digit_examples)
  from upd uval handler tf show ?thesis
    by (simp add: st_example_fields example_ids r z utc_zone_times local_datetime_examples
        digit_examples del: of_char_Char)
qed

section \<open>Completion and the completed-iff-timestamp invariant\<close>

lemma transform_wire_completed_no_time:
  "transformRequest example_parse (JsonObject wire_completed_no_time) =
     Inr (req_pending \<lparr> status := Completed \<rparr>)"
  unfolding wire_completed_no_time_def wire_pending_def req_pending_def example_parse_def by simp

lemma updateRequest_env_no_time:
  "updateRequest env_no_time i u = Inr (req_pending \<lparr> status := Completed \<rparr>)"
  by (simp add: updateRequest_def env_no_time_def env_ok_def transform_wire_completed_no_time
      del: transformRequest.simps)

lemma decoded_invariant_iff:
  assumes "transformRequest parse (JsonObject w) = Inr u"
  shows "(status u = Completed \<longleftrightarrow> completionTime u \<noteq> None) \<longleftrightarrow>
         (status_wire w = Completed \<longleftrightarrow> truthy (completion_time w))"
  using assms by (auto split: if_splits)

lemma wire_completed_fields:
  "status_wire wire_completed = Completed" "truthy (completion_time wire_completed)"
  by (simp_all add: wire_completed_def wire_pending_def)

lemma req_completed_fields:
  "status req_completed = Completed" "completionTime req_completed = Some (DateAt 1709649000000)"
  by (simp_all add: req_completed_def req_pending_def)

lemma js_split_no_separator: "sep \<notin> set s \<Longrightarrow> js_split sep s = [s]"
  by (induction s) auto

lemma setHours_NaN_minutes: "setHours zn d h None s milli = InvalidDate"
  by (cases d; cases h; cases s; cases milli) simp_all

lemma delivery_completionDate_invalid:
  assumes "requestTime r = InvalidDate \<or> of_char CHR '':'' \<notin> set s"
  shows "delivery_completionDate zn r s = InvalidDate"
  using assms
proof
  assume "requestTime r = InvalidDate"
  then show ?thesis
    by (simp add: delivery_completionDate_def Let_def)
next
  assume "of_char CHR '':'' \<notin> set s"
  then have "js_split (of_char CHR '':'') s = [s]"
    by (rule js_split_no_separator)
  then show ?thesis
    by (simp add: delivery_completionDate_def Let_def setHours_NaN_minutes del: of_char_Char)
qed

text \<open>
  Claim C1, as stated, fails on the code: the entity that a completion operation puts into
  the local list is the decoded response of the server, not the update that was
  dispatched. When the response is a completed record without a completion time, the
  local entity is Completed and has no completion time, on either completion path.
\<close>

theorem completed_without_time_counterexample:
  "confirmingComplete st_example = Some ''r1'' \<and>
   upd_status (complete_updates env_no_time) = Some Completed \<and>
   upd_completionTime (complete_updates env_no_time) = Some (DateAt 1709649000000) \<and>
   requests (handleConfirmComplete env_no_time st_example) =
     [req_pending \<lparr> status := Completed \<rparr>, req_other] \<and>
   completingDelivery st_example = Some ''r1'' \<and>
   requests (handleConfirmCompleteDelivery env_no_time ''Dan'' ''D7'' (str ''14:30'') st_example) =
     [req_pending \<lparr> status := Completed \<rparr>, req_other] \<and>
   status (req_pending \<lparr> status := Completed \<rparr>) = Completed \<and>
   completionTime (req_pending \<lparr> status := Completed \<rparr>) = None"
  by (simp add: handleConfirmComplete_def handleConfirmCompleteDelivery_def
      updateRequest_env_no_time addNotification_def st_example_fields example_ids
      complete_updates_def)
    (simp add: env_no_time_def env_ok_def req_pending_def)

text \<open>
  Claim C1, amended: both completion paths build a single update that carries the status
  Completed together with a completion date: the time of the clock on the non-delivery
  path, the computed completion date on the delivery path, which is an invalid date when
  the request time is invalid or the time string has no colon. When the remote update
  succeeds, every local entity with the target id is replaced by the decoded response, and
  for that entity "status is Completed exactly when the completion time is set" holds
  exactly when the response has the status Completed exactly when its completion time is
  truthy (neither absent, null, the empty string nor zero).
\<close>

theorem completion_paths_update_and_replace:
  "upd_status (complete_updates e) = Some Completed \<and>
   upd_completionTime (complete_updates e) = Some (DateAt (now e)) \<and>
   upd_status (delivery_updates e r name number s) = Some Completed \<and>
   upd_completionTime (delivery_updates e r name number s) =
     Some (delivery_completionDate (tzone e) r s) \<and>
   (requestTime r = InvalidDate \<or> of_char CHR '':'' \<notin> set s \<longrightarrow>
      delivery_completionDate (tzone e) r s = InvalidDate) \<and>
   (confirmingComplete st = Some cid \<and> cid \<noteq> [] \<and>
    remote e (PatchRequest cid (complete_updates e)) = Inr (JsonObject w) \<longrightarrow>
      (\<exists>u. transformRequest (Date_parse e) (JsonObject w) = Inr u \<and>
           requests (handleConfirmComplete e st) =
             map (\<lambda>req. if id_req req = cid then u else req) (requests st) \<and>
           ((status u = Completed \<longleftrightarrow> completionTime u \<noteq> None) \<longleftrightarrow>
            (status_wire w = Completed \<longleftrightarrow> truthy (completion_time w))))) \<and>
   (completingDelivery st = Some cid \<and> cid \<noteq> [] \<and>
    find (\<lambda>x. id_req x = cid) (requests st) = Some r \<and>
    remote e (PatchRequest cid (delivery_updates e r name number s)) = Inr (JsonObject w) \<longrightarrow>
      (\<exists>u. transformRequest (Date_parse e) (JsonObject w) = Inr u \<and>
           requests (handleConfirmCompleteDelivery e name number s st) =
             map (\<lambda>req. if id_req req = cid then u else req) (requests st) \<and>
           ((status u = Completed \<longleftrightarrow> completionTime u \<noteq> None) \<longleftrightarrow>
            (status_wire w = Completed \<longleftrightarrow> truthy (completion_time w)))))"
proof (intro conjI impI)
  show "upd_status (complete_updates e) = Some Completed"
    and "upd_completionTime (complete_updates e) = Some (DateAt (now e))"
    by (simp_all add: complete_updates_def)
  show "upd_status (delivery_updates e r name number s) = Some Completed"
    and "upd_completionTime (delivery_updates e r name number s) =
      Some (delivery_completionDate (tzone e) r s)"
    by (simp_all add: delivery_updates_def)
next
  assume "requestTime r = InvalidDate \<or> of_char CHR '':'' \<notin> set s"
  then show "delivery_completionDate (tzone e) r s = InvalidDate"
    by (rule delivery_completionDate_invalid)
next
  assume a: "confirmingComplete st = Some cid \<and> cid \<noteq> [] \<and>
    remote e (PatchRequest cid (complete_updates e)) = Inr (JsonObject w)"
  obtain u where u: "transformRequest (Date_parse e) (JsonObject w) = Inr u"
    by simp
  from a u have "updateRequest e cid (complete_updates e) = Inr u"
    by (simp add: updateRequest_def del: transformRequest.simps)
  with a have "requests (handleConfirmComplete e st) =
      map (\<lambda>req. if id_req req = cid then u else req) (requests st)"
    by (simp add: handleConfirmComplete_def addNotification_def)
  with u decoded_invariant_iff [OF u]
  show "\<exists>u. transformRequest (Date_parse e) (JsonObject w) = Inr u \<and>
           requests (handleConfirmComplete e st) =
             map (\<lambda>req. if id_req req = cid then u else req) (requests st) \<and>
           ((status u = Completed \<longleftrightarrow> completionTime u \<noteq> None) \<longleftrightarrow>
            (status_wire w = Completed \<longleftrightarrow> truthy (completion_time w)))"
    by (intro exI [of _ u] conjI)
next
  assume a: "completingDelivery st = Some cid \<and> cid \<noteq> [] \<and>
    find (\<lambda>x. id_req x = cid) (requests st) = Some r \<and>
    remote e (PatchRequest cid (delivery_updates e r name number s)) = Inr (JsonObject w)"
  obtain u where u: "transformRequest (Date_parse e) (JsonObject w) = Inr u"
    by simp
  from a u have "updateRequest e cid (delivery_updates e r name number s) = Inr u"
    by (simp add: updateRequest_def del: transformRequest.simps)
  with a have "requests (handleConfirmCompleteDelivery e name number s st) =
      map (\<lambda>req. if id_req req = cid then u else req) (requests st)"
    by (simp add: handleConfirmCompleteDelivery_def addNotification_def)
  with u decoded_invariant_iff [OF u]
  show "\<exists>u. transformRequest (Date_parse e) (JsonObject w) = Inr u \<and>
           requests (handleConfirmCompleteDelivery e name number s st) =
             map (\<lambda>req. if id_req req = cid then u else req) (requests st) \<and>
           ((status u = Completed \<longleftrightarrow> completionTime u \<noteq> None) \<longleftrightarrow>
            (status_wire w = Completed \<longleftrightarrow> truthy (completion_time w)))"
    by (intro exI [of _ u] conjI)
qed

theorem completion_paths_update_and_replace_witness:
  "confirmingComplete st_example = Some ''r1'' \<and> completingDelivery st_example = Some ''r1'' \<and>
   find (\<lambda>x. id_req x = ''r1'') (requests st_example) = Some req_pending \<and>
   remote env_ok (PatchRequest ''r1'' (complete_updates env_ok)) = Inr (JsonObject wire_completed) \<and>
   remote env_ok (PatchRequest ''r1'' (delivery_updates env_ok req_pending ''Dan'' ''D7'' (str ''14:30''))) =
     Inr (JsonObject wire_completed) \<and>
   status_wire wire_completed = Completed \<and> truthy (completion_time wire_completed) \<and>
   requests (handleConfirmComplete env_ok st_example) = [req_completed, req_other] \<and>
   requests (handleConfirmCompleteDelivery env_ok ''Dan'' ''D7'' (str ''14:30'') st_example) =
     [req_completed, req_other] \<and>
   status req_completed = Completed \<and>
   completionTime req_completed = Some (DateAt 1709649000000) \<and>
   str ''14'' = [49, 52] \<and>
   delivery_completionDate (tzone env_ok) req_pending (str ''14'') = InvalidDate"
proof -
  note inst = completion_paths_update_and_replace [where e = env_ok and st = st_example
      and cid = "''r1''" and w = wire_completed and r = req_pending and name = "''Dan''"
      and number = "''D7''" and s = "str ''14:30''"]
  have "requests (handleConfirmComplete env_ok st_example) = [req_completed, req_other]"
    using inst [THEN conjunct2, THEN conjunct2, THEN conjunct2, THEN conjunct2, THEN conjunct2,
        THEN conjunct1]
    by (simp add: st_example_fields remote_examples Date_parse_examples
        transform_wire_completed example_ids del: transformRequest.simps)
  moreover
  have "requests (handleConfirmCompleteDelivery env_ok ''Dan'' ''D7'' (str ''14:30'') st_example) =
      [req_completed, req_other]"
    using inst [THEN conjunct2, THEN conjunct2, THEN conjunct2, THEN conjunct2, THEN conjunct2,
        THEN conjunct2]
    by (simp add: st_example_fields remote_examples Date_parse_examples
        transform_wire_completed example_ids del: transformRequest.simps)
  moreover
  have "delivery_completionDate (tzone env_ok) req_pending (str ''14'') = InvalidDate"
    using completion_paths_update_and_replace [where e = env_ok and r = req_pending
        and s = "str ''14''", THEN conjunct2, THEN conjunct2, THEN conjunct2, THEN conjunct2,
        THEN conjunct1]
    by (simp add: str_def)
  moreover have "str ''14'' = [49, 52]"
    by (simp add: str_def)
  ultimately show ?thesis
    by (simp add: st_example_fields remote_examples wire_completed_fields
        req_completed_fields example_ids)
qed

end
